theory Spec2Isabelle
  imports Complex_Main "HOL-Library.Product_Lexorder"
begin

section \<open>Conventions of the embedding\<close>

text \<open>
  The engine of \<^verbatim>\<open>local_analyzer.py\<close> is embedded function by function.
  Python floats are modelled as real numbers (no rounding error, no overflow, no NaN),
  Python dictionaries as association lists in insertion order, strings as lists of
  bytes (case and character classes on ASCII), \<^verbatim>\<open>datetime\<close> values as integers
  counting microseconds, and the external collaborators (quote lookup, price history,
  symbol search, date parsing) as functions of an environment. The tables that the
  constructors take as arguments (aliases, tradeable universe, themes) are arguments
  here; the tables that the code reads as module constants are defined as they are.
\<close>

subsection \<open>Numeric helpers\<close>

text \<open>Python's \<^verbatim>\<open>round(x)\<close>: to the nearest integer, ties to the even one.\<close>

definition round_half_even :: "real \<Rightarrow> int" where
  "round_half_even x =
     (let f = \<lfloor>x\<rfloor>; d = x - of_int f
      in if d < 1 / 2 then f
         else if 1 / 2 < d then f + 1
         else if even f then f else f + 1)"

text \<open>Python's \<^verbatim>\<open>round(x, n)\<close> on the real value.\<close>

definition py_round :: "real \<Rightarrow> nat \<Rightarrow> real" where
  "py_round x n = of_int (round_half_even (x * 10 ^ n)) / 10 ^ n"

text \<open>Python's \<^verbatim>\<open>int(x)\<close> on a float: truncation towards zero.\<close>

definition py_int :: "real \<Rightarrow> int" where
  "py_int x = (if 0 \<le> x then \<lfloor>x\<rfloor> else \<lceil>x\<rceil>)"

subsection \<open>Dictionaries in insertion order\<close>

text \<open>
  A Python \<^verbatim>\<open>dict\<close> keeps its keys in the order of their first insertion;
  assigning to a key that is present replaces the value in place.
\<close>

fun dict_set :: "('k \<times> 'v) list \<Rightarrow> 'k \<Rightarrow> 'v \<Rightarrow> ('k \<times> 'v) list" where
  "dict_set [] k v = [(k, v)]"
| "dict_set ((k', v') # d) k v = (if k' = k then (k, v) # d else (k', v') # dict_set d k v)"

subsection \<open>Rendering\<close>

definition digit_char :: "nat \<Rightarrow> char" where
  "digit_char d = ''0123456789'' ! d"

fun show_nat :: "nat \<Rightarrow> string" where
  "show_nat n = (if n < 10 then [digit_char n] else show_nat (n div 10) @ [digit_char (n mod 10)])"

declare show_nat.simps [simp del]

text \<open>\<^verbatim>\<open>sep.join(parts)\<close>\<close>

fun join_str :: "string \<Rightarrow> string list \<Rightarrow> string" where
  "join_str sep [] = []"
| "join_str sep [x] = x"
| "join_str sep (x # y # ys) = x @ sep @ join_str sep (y # ys)"

section \<open>Sentiment analyzer\<close>

subsection \<open>Lexicon tables\<close>

definition FINANCIAL_LEXICON :: "(string \<times> real) list" where
  "FINANCIAL_LEXICON =
     [(''soar'', 9 / 10), (''soars'', 9 / 10), (''soared'', 9 / 10), (''soaring'', 9 / 10),
      (''surge'', 85 / 100), (''surges'', 85 / 100), (''surged'', 85 / 100),
      (''surging'', 85 / 100), (''skyrocket'', 9 / 10), (''skyrockets'', 9 / 10),
      (''skyrocketed'', 9 / 10), (''rally'', 8 / 10), (''rallies'', 8 / 10),
      (''rallied'', 8 / 10), (''rallying'', 8 / 10), (''boom'', 8 / 10), (''booming'', 8 / 10),
      (''booms'', 8 / 10), (''breakout'', 75 / 100), (''breakthrough'', 8 / 10),
      (''outperform'', 7 / 10), (''outperforms'', 7 / 10), (''outperformed'', 7 / 10),
      (''beat'', 65 / 100), (''beats'', 65 / 100), (''beating'', 65 / 100),
      (''exceed'', 65 / 100), (''exceeds'', 65 / 100), (''exceeded'', 65 / 100),
      (''exceeding'', 65 / 100), (''record'', 6 / 10), (''all-time high'', 85 / 100),
      (''bullish'', 75 / 100), (''upgrade'', 7 / 10), (''upgraded'', 7 / 10),
      (''upgrades'', 7 / 10), (''profit'', 6 / 10), (''profits'', 6 / 10),
      (''profitable'', 65 / 100), (''profitability'', 6 / 10), (''revenue growth'', 7 / 10),
      (''earnings beat'', 75 / 100), (''strong'', 5 / 10), (''strength'', 5 / 10),
      (''robust'', 55 / 100), (''optimistic'', 6 / 10), (''optimism'', 6 / 10),
      (''upbeat'', 55 / 100), (''momentum'', 5 / 10), (''accelerate'', 6 / 10),
      (''accelerates'', 6 / 10), (''accelerating'', 6 / 10), (''innovation'', 5 / 10),
      (''innovative'', 5 / 10), (''dividend'', 4 / 10), (''buyback'', 5 / 10),
      (''repurchase'', 5 / 10), (''expansion'', 5 / 10), (''expand'', 45 / 100),
      (''expands'', 45 / 100), (''expanding'', 45 / 100), (''recovery'', 55 / 100),
      (''recover'', 5 / 10), (''recovers'', 5 / 10), (''recovering'', 5 / 10),
      (''gain'', 55 / 100), (''gains'', 55 / 100), (''gained'', 55 / 100),
      (''gaining'', 55 / 100), (''jump'', 6 / 10), (''jumps'', 6 / 10), (''jumped'', 6 / 10),
      (''jumping'', 6 / 10), (''climb'', 5 / 10), (''climbs'', 5 / 10), (''climbed'', 5 / 10),
      (''climbing'', 5 / 10), (''rise'', 5 / 10), (''rises'', 5 / 10), (''rising'', 5 / 10),
      (''risen'', 5 / 10), (''up'', 3 / 10), (''higher'', 35 / 100), (''high'', 25 / 100),
      (''positive'', 4 / 10), (''growth'', 5 / 10), (''growing'', 45 / 100),
      (''grew'', 45 / 100), (''grow'', 4 / 10), (''boost'', 55 / 100), (''boosts'', 55 / 100),
      (''boosted'', 55 / 100), (''boosting'', 55 / 100), (''win'', 5 / 10), (''wins'', 5 / 10),
      (''winning'', 5 / 10), (''won'', 5 / 10), (''success'', 55 / 100),
      (''successful'', 55 / 100), (''demand'', 4 / 10), (''opportunity'', 45 / 100),
      (''opportunities'', 45 / 100), (''approval'', 5 / 10), (''approved'', 55 / 100),
      (''acquisition'', 4 / 10), (''acquire'', 4 / 10), (''acquires'', 4 / 10),
      (''acquired'', 4 / 10), (''merger'', 35 / 100), (''deal'', 35 / 100),
      (''partnership'', 4 / 10), (''stable'', 25 / 100), (''stability'', 25 / 100),
      (''steady'', 25 / 100), (''resilient'', 35 / 100), (''resilience'', 35 / 100),
      (''improve'', 4 / 10), (''improves'', 4 / 10), (''improved'', 4 / 10),
      (''improving'', 4 / 10), (''increase'', 35 / 100), (''increases'', 35 / 100),
      (''increased'', 35 / 100), (''increasing'', 35 / 100), (''launch'', 35 / 100),
      (''launches'', 35 / 100), (''launched'', 35 / 100), (''invest'', 3 / 10),
      (''investment'', 3 / 10), (''investing'', 3 / 10), (''confident'', 4 / 10),
      (''confidence'', 4 / 10), (''crash'', - (9 / 10)), (''crashes'', - (9 / 10)),
      (''crashed'', - (9 / 10)), (''crashing'', - (9 / 10)), (''plunge'', - (85 / 100)),
      (''plunges'', - (85 / 100)), (''plunged'', - (85 / 100)), (''plunging'', - (85 / 100)),
      (''collapse'', - (85 / 100)), (''collapses'', - (85 / 100)), (''collapsed'', - (85 / 100)),
      (''tank'', - (8 / 10)), (''tanks'', - (8 / 10)), (''tanked'', - (8 / 10)),
      (''tanking'', - (8 / 10)), (''tumble'', - (75 / 100)), (''tumbles'', - (75 / 100)),
      (''tumbled'', - (75 / 100)), (''tumbling'', - (75 / 100)), (''plummet'', - (85 / 100)),
      (''plummets'', - (85 / 100)), (''plummeted'', - (85 / 100)), (''selloff'', - (7 / 10)),
      (''sell-off'', - (7 / 10)), (''bearish'', - (75 / 100)), (''bear market'', - (8 / 10)),
      (''downgrade'', - (7 / 10)), (''downgraded'', - (7 / 10)), (''downgrades'', - (7 / 10)),
      (''bankruptcy'', - (95 / 100)), (''bankrupt'', - (95 / 100)), (''default'', - (8 / 10)),
      (''defaults'', - (8 / 10)), (''defaulted'', - (8 / 10)), (''recession'', - (75 / 100)),
      (''recessionary'', - (7 / 10)), (''layoff'', - (6 / 10)), (''layoffs'', - (65 / 100)),
      (''laid off'', - (6 / 10)), (''loss'', - (55 / 100)), (''losses'', - (55 / 100)),
      (''miss'', - (55 / 100)), (''misses'', - (55 / 100)), (''missed'', - (55 / 100)),
      (''missing'', - (4 / 10)), (''fraud'', - (9 / 10)), (''scandal'', - (8 / 10)),
      (''investigation'', - (5 / 10)), (''lawsuit'', - (55 / 100)), (''litigation'', - (5 / 10)),
      (''sued'', - (55 / 100)), (''fine'', - (45 / 100)), (''fined'', - (5 / 10)),
      (''penalty'', - (5 / 10)), (''penalties'', - (5 / 10)), (''debt'', - (35 / 100)),
      (''overvalued'', - (55 / 100)), (''decline'', - (5 / 10)), (''declines'', - (5 / 10)),
      (''declined'', - (5 / 10)), (''declining'', - (5 / 10)), (''drop'', - (5 / 10)),
      (''drops'', - (5 / 10)), (''dropped'', - (5 / 10)), (''dropping'', - (5 / 10)),
      (''fall'', - (5 / 10)), (''falls'', - (5 / 10)), (''fell'', - (5 / 10)),
      (''falling'', - (5 / 10)), (''sink'', - (6 / 10)), (''sinks'', - (6 / 10)),
      (''sank'', - (6 / 10)), (''sinking'', - (6 / 10)), (''slide'', - (5 / 10)),
      (''slides'', - (5 / 10)), (''slid'', - (5 / 10)), (''sliding'', - (5 / 10)),
      (''slump'', - (6 / 10)), (''slumps'', - (6 / 10)), (''slumped'', - (6 / 10)),
      (''slumping'', - (6 / 10)), (''weak'', - (45 / 100)), (''weakness'', - (45 / 100)),
      (''weaken'', - (45 / 100)), (''down'', - (3 / 10)), (''lower'', - (35 / 100)),
      (''low'', - (25 / 100)), (''negative'', - (4 / 10)), (''shrink'', - (5 / 10)),
      (''shrinks'', - (5 / 10)), (''shrank'', - (5 / 10)), (''shrinking'', - (5 / 10)),
      (''cut'', - (4 / 10)), (''cuts'', - (4 / 10)), (''cutting'', - (4 / 10)),
      (''risk'', - (3 / 10)), (''risks'', - (3 / 10)), (''risky'', - (35 / 100)),
      (''warning'', - (5 / 10)), (''warn'', - (5 / 10)), (''warns'', - (5 / 10)),
      (''warned'', - (5 / 10)), (''concern'', - (35 / 100)), (''concerns'', - (35 / 100)),
      (''concerned'', - (35 / 100)), (''fear'', - (45 / 100)), (''fears'', - (45 / 100)),
      (''fearful'', - (5 / 10)), (''uncertainty'', - (4 / 10)), (''uncertain'', - (4 / 10)),
      (''volatile'', - (35 / 100)), (''volatility'', - (35 / 100)),
      (''inflation'', - (35 / 100)), (''inflationary'', - (35 / 100)), (''tariff'', - (4 / 10)),
      (''tariffs'', - (4 / 10)), (''sanctions'', - (45 / 100)), (''shortage'', - (4 / 10)),
      (''shortages'', - (4 / 10)), (''delay'', - (35 / 100)), (''delayed'', - (35 / 100)),
      (''delays'', - (35 / 100)), (''recall'', - (5 / 10)), (''recalls'', - (5 / 10)),
      (''recalled'', - (5 / 10)), (''shutdown'', - (55 / 100)), (''closure'', - (5 / 10)),
      (''close'', - (2 / 10)), (''struggle'', - (45 / 100)), (''struggles'', - (45 / 100)),
      (''struggling'', - (45 / 100)), (''disappoint'', - (55 / 100)),
      (''disappoints'', - (55 / 100)), (''disappointed'', - (55 / 100)),
      (''disappointing'', - (55 / 100)), (''underperform'', - (55 / 100)),
      (''underperforms'', - (55 / 100)), (''underperformed'', - (55 / 100)),
      (''flat'', - (5 / 100)), (''unchanged'', 0), (''mixed'', - (5 / 100)), (''hold'', 0),
      (''maintain'', 1 / 10), (''maintains'', 1 / 10), (''report'', 0), (''reports'', 0),
      (''reported'', 0), (''announce'', 1 / 10), (''announces'', 1 / 10),
      (''announced'', 1 / 10), (''expect'', 1 / 10), (''expects'', 1 / 10),
      (''expected'', 5 / 100), (''rate hike'', - (45 / 100)), (''rate cut'', 5 / 10),
      (''rate increase'', - (4 / 10)), (''hawkish'', - (4 / 10)), (''dovish'', 4 / 10),
      (''tighten'', - (35 / 100)), (''tightening'', - (35 / 100)), (''easing'', 4 / 10),
      (''stimulus'', 45 / 100)]"

definition NEGATION_WORDS :: "string list" where
  "NEGATION_WORDS =
     [''not'', ''no'', ''never'', ''neither'', ''nobody'', ''nothing'', ''nowhere'', ''nor'',
      ''cannot'', ''can't'', ''won't'', ''don't'', ''doesn't'', ''didn't'', ''wasn't'',
      ''weren't'', ''isn't'', ''aren't'', ''wouldn't'', ''shouldn't'', ''couldn't'', ''hardly'',
      ''barely'', ''scarcely'', ''fail'', ''fails'', ''failed'', ''failing'']"

definition INTENSIFIERS :: "(string \<times> real) list" where
  "INTENSIFIERS =
     [(''very'', 13 / 10), (''extremely'', 15 / 10), (''significantly'', 14 / 10),
      (''sharply'', 14 / 10), (''dramatically'', 15 / 10), (''massively'', 15 / 10),
      (''strongly'', 13 / 10), (''highly'', 13 / 10), (''deeply'', 13 / 10),
      (''substantially'', 13 / 10), (''considerably'', 125 / 100), (''slightly'', 6 / 10),
      (''marginally'', 5 / 10), (''somewhat'', 7 / 10), (''modestly'', 7 / 10)]"

subsection \<open>Text primitives\<close>

text \<open>
  Strings are lists of bytes. \<^verbatim>\<open>str.lower()\<close> is modelled on the ASCII letters; other
  bytes are left as they are.
\<close>

definition lower_char :: "char \<Rightarrow> char" where
  "lower_char c =
     (case map_of (zip ''ABCDEFGHIJKLMNOPQRSTUVWXYZ'' ''abcdefghijklmnopqrstuvwxyz'') c of
        Some l \<Rightarrow> l | None \<Rightarrow> c)"

definition lower :: "string \<Rightarrow> string" where
  "lower s = map lower_char s"

definition is_lower :: "char \<Rightarrow> bool" where
  "is_lower c = (c \<in> set ''abcdefghijklmnopqrstuvwxyz'')"

definition is_upper :: "char \<Rightarrow> bool" where
  "is_upper c = (c \<in> set ''ABCDEFGHIJKLMNOPQRSTUVWXYZ'')"

fun starts_with :: "string \<Rightarrow> string \<Rightarrow> bool" where
  "starts_with s [] = True"
| "starts_with [] (p # ps) = False"
| "starts_with (c # cs) (p # ps) = (c = p \<and> starts_with cs ps)"

text \<open>
  \<^verbatim>\<open>text.count(sub)\<close>: the number of non-overlapping occurrences, found from left to
  right. \<open>count_from skip\<close> passes over the \<open>skip\<close> characters that remain of the
  occurrence found last.
\<close>

fun count_from :: "nat \<Rightarrow> string \<Rightarrow> string \<Rightarrow> nat" where
  "count_from skip [] sub = 0"
| "count_from skip (c # cs) sub =
     (if 0 < skip then count_from (skip - 1) cs sub
      else if starts_with (c # cs) sub then 1 + count_from (length sub - 1) cs sub
      else count_from 0 cs sub)"

definition count_sub :: "string \<Rightarrow> string \<Rightarrow> nat" where
  "count_sub s sub = (if sub = [] then length s + 1 else count_from 0 s sub)"

text \<open>\<^verbatim>\<open>sub in text\<close>\<close>

fun contains :: "string \<Rightarrow> string \<Rightarrow> bool" where
  "contains [] sub = (sub = [])"
| "contains (c # cs) sub = (starts_with (c # cs) sub \<or> contains cs sub)"

lemma length_dropWhile_less_Suc: "length (dropWhile P xs) < Suc (length xs)"
  by (simp add: length_dropWhile_le less_Suc_eq_le)

lemma length_dropWhile_tail:
  assumes "a # bs = dropWhile P xs"
  shows "length (dropWhile Q bs) < Suc (length xs)"
proof -
  have "length (dropWhile Q bs) \<le> length bs" by (rule length_dropWhile_le)
  also have "length bs < length (a # bs)" by simp
  also have "length (a # bs) \<le> length xs" unfolding assms by (rule length_dropWhile_le)
  finally show ?thesis by simp
qed

text \<open>
  \<^verbatim>\<open>re.findall(r"[a-z]+(?:'[a-z]+)?", text_lower)\<close>: a longest run of lower-case
  letters, extended by an apostrophe and a further run of letters when these follow at
  once; the search goes on behind each token.
\<close>

function tokenize :: "string \<Rightarrow> string list" where
  "tokenize [] = []"
| "tokenize (c # cs) =
     (if is_lower c then
        (let word = c # takeWhile is_lower cs; rest = dropWhile is_lower cs
         in case rest of
              a # b # rest' \<Rightarrow>
                if a = CHR 0x27 \<and> is_lower b
                then (word @ [a] @ takeWhile is_lower (b # rest'))
                       # tokenize (dropWhile is_lower (b # rest'))
                else word # tokenize rest
            | _ \<Rightarrow> word # tokenize rest)
      else tokenize cs)"
  by pat_completeness auto

termination
  by (relation "measure length")
    (auto simp del: dropWhile.simps simp add: length_dropWhile_less_Suc length_dropWhile_tail)

subsection \<open>The analyzer\<close>

datatype sentiment_label = Positive | Negative | Neutral

record sentiment_result =
  sentiment :: sentiment_label
  score :: real
  sr_confidence :: real
  word_hits :: nat

text \<open>The constructor: \<^verbatim>\<open>self._lexicon = lexicon or FINANCIAL_LEXICON\<close>, split in two.\<close>

definition init_lexicon :: "(string \<times> real) list option \<Rightarrow> (string \<times> real) list" where
  "init_lexicon lexicon =
     (case lexicon of None \<Rightarrow> FINANCIAL_LEXICON | Some [] \<Rightarrow> FINANCIAL_LEXICON | Some l \<Rightarrow> l)"

definition is_phrase :: "string \<Rightarrow> bool" where
  "is_phrase k = (CHR '' '' \<in> set k \<or> CHR ''-'' \<in> set k)"

definition multi_word :: "(string \<times> real) list \<Rightarrow> (string \<times> real) list" where
  "multi_word lexicon = filter (\<lambda>(k, v). is_phrase k) lexicon"

definition single_word :: "(string \<times> real) list \<Rightarrow> (string \<times> real) list" where
  "single_word lexicon = filter (\<lambda>(k, v). \<not> is_phrase k) lexicon"

text \<open>Step 1: every occurrence of a phrase appends the score of the phrase.\<close>

definition phrase_scores :: "(string \<times> real) list \<Rightarrow> string \<Rightarrow> real list" where
  "phrase_scores mw text_lower =
     concat (map (\<lambda>(phrase, base_score). replicate (count_sub text_lower phrase) base_score) mw)"

text \<open>
  Step 2, the \<^verbatim>\<open>while i < len(tokens)\<close> loop: the argument is the list of tokens
  from index \<open>i\<close> on.
\<close>

fun token_scores :: "(string \<rightharpoonup> real) \<Rightarrow> string list \<Rightarrow> real list" where
  "token_scores sw [] = []"
| "token_scores sw [token] = (case sw token of Some v \<Rightarrow> [v] | None \<Rightarrow> [])"
| "token_scores sw (token # next_token # rest) =
     (let intensifier = (case map_of INTENSIFIERS token of Some f \<Rightarrow> f | None \<Rightarrow> 1)
      in if intensifier \<noteq> 1 \<and> sw next_token \<noteq> None
         then (the (sw next_token) * intensifier) # token_scores sw rest
         else if token \<in> set NEGATION_WORDS \<and> sw next_token \<noteq> None
         then (the (sw next_token) * - (75 / 100)) # token_scores sw rest
         else (case sw token of Some v \<Rightarrow> [v] | None \<Rightarrow> [])
              @ token_scores sw (next_token # rest))"

definition all_scores :: "(string \<times> real) list \<Rightarrow> string \<Rightarrow> real list" where
  "all_scores lexicon text =
     phrase_scores (multi_word lexicon) (lower text)
     @ token_scores (map_of (single_word lexicon)) (tokenize (lower text))"

definition analyze :: "(string \<times> real) list \<Rightarrow> string \<Rightarrow> sentiment_result" where
  "analyze lexicon text =
     (let scores = all_scores lexicon text
      in if scores = [] then
           \<lparr>sentiment = Neutral, score = 0, sr_confidence = 1 / 10, word_hits = 0\<rparr>
         else
           (let avg_score = sum_list scores / real (length scores);
                hit_confidence = min 1 (real (length scores) / 5);
                magnitude_confidence = min 1 (\<bar>avg_score\<bar> * 2);
                conf = hit_confidence * (4 / 10) + magnitude_confidence * (6 / 10)
            in \<lparr>sentiment = (if avg_score > 5 / 100 then Positive
                              else if avg_score < - (5 / 100) then Negative
                              else Neutral),
                score = py_round avg_score 4,
                sr_confidence = py_round (max (1 / 10) (min 1 conf)) 3,
                word_hits = length scores\<rparr>))"

section \<open>Signal generator\<close>

subsection \<open>Time decay\<close>

text \<open>
  \<^verbatim>\<open>math.exp\<close> on double-precision floats: the smallest positive double is
  \<open>2^-1074\<close>, and an argument below about -745.13 gives the result 0.0. The model
  returns 0 below -746 and the real exponential elsewhere; the rounding of the other
  results to the nearest double is not modelled.
\<close>

definition math_exp :: "real \<Rightarrow> real" where
  "math_exp x = (if x < - 746 then 0 else exp x)"

text \<open>
  \<^verbatim>\<open>self._lambda = math.log(2) / max(decay_half_life, 0.1)\<close> in the constructor, and
  \<^verbatim>\<open>math.exp(-self._lambda * max(story_age_hours, 0))\<close> in \<^verbatim>\<open>_time_decay_weight\<close>.
\<close>

definition decay_lambda :: "real \<Rightarrow> real" where
  "decay_lambda decay_half_life = ln 2 / max decay_half_life (1 / 10)"

definition time_decay_weight :: "real \<Rightarrow> real \<Rightarrow> real" where
  "time_decay_weight decay_half_life story_age_hours =
     math_exp (- decay_lambda decay_half_life * max story_age_hours 0)"

subsection \<open>Technical snapshot (the result of a successful technical analysis)\<close>

record indicators =
  ind_rsi :: real
  ind_sma_20 :: real
  ind_sma_50 :: "real option"
  ind_ema_12 :: real
  ind_price :: real
  ind_price_above_sma20 :: bool
  ind_price_above_sma50 :: bool
  ind_sma20_above_sma50 :: bool
  ind_macd :: real
  ind_macd_signal :: real
  ind_macd_histogram :: real
  ind_macd_bullish_crossover :: bool
  ind_macd_bearish_crossover :: bool
  ind_roc :: "real option"
  ind_volume_ratio :: real
  ind_avg_volume :: real
  ind_current_volume :: real

record ta_snapshot =
  ta_symbol :: string
  technical_score :: real
  technical_confidence :: real
  rsi :: real
  rsi_score :: real
  ma_score :: real
  macd_score :: real
  roc_score :: real
  volume_ratio :: real
  indicators :: indicators

subsection \<open>Aggregation per ticker\<close>

datatype action = BUY | SELL | HOLD

record story_analysis =
  sentiment_score :: real
  sentiment_confidence :: real
  tickers :: "(string \<times> real) list"
  story_age_hours :: real
  story_snippet :: string

record ticker_data =
  weighted_score_sum :: real
  weight_sum :: real
  confidence_sum :: real
  story_count :: nat
  reasons :: "string list"

record recommendation =
  symbol :: string
  action :: action
  confidence :: real
  reason :: string
  target_allocation_percent :: int
  aggregated_score :: real
  rec_story_count :: nat
  rec_sentiment_score :: real
  rec_technical_score :: "real option"
  technical_indicators :: "indicators option"

text \<open>The value a missing key of the \<^verbatim>\<open>defaultdict\<close> starts from.\<close>

definition empty_ticker_data :: ticker_data where
  "empty_ticker_data =
     \<lparr>weighted_score_sum = 0, weight_sum = 0, confidence_sum = 0, story_count = 0, reasons = []\<rparr>"

text \<open>The body of the inner loop \<^verbatim>\<open>for ticker, relevance in tickers.items()\<close>.\<close>

definition accumulate ::
  "real \<Rightarrow> story_analysis \<Rightarrow> (string \<times> ticker_data) list \<Rightarrow> string \<times> real
     \<Rightarrow> (string \<times> ticker_data) list" where
  "accumulate decay_w a data tr =
     (let ticker = fst tr; relevance = snd tr;
          combined_weight = decay_w * relevance * sentiment_confidence a;
          td = (case map_of data ticker of None \<Rightarrow> empty_ticker_data | Some td \<Rightarrow> td)
      in dict_set data ticker
           \<lparr>weighted_score_sum = weighted_score_sum td + sentiment_score a * combined_weight,
            weight_sum = weight_sum td + combined_weight,
            confidence_sum = confidence_sum td + sentiment_confidence a * relevance,
            story_count = story_count td + 1,
            reasons = (if story_snippet a \<noteq> [] then reasons td @ [take 80 (story_snippet a)]
                       else reasons td)\<rparr>)"

text \<open>The body of the outer loop \<^verbatim>\<open>for analysis in story_analyses\<close>.\<close>

definition add_story ::
  "real \<Rightarrow> (string \<times> ticker_data) list \<Rightarrow> story_analysis \<Rightarrow> (string \<times> ticker_data) list" where
  "add_story half_life data a =
     foldl (accumulate (time_decay_weight half_life (story_age_hours a)) a) data (tickers a)"

definition aggregate :: "real \<Rightarrow> story_analysis list \<Rightarrow> (string \<times> ticker_data) list" where
  "aggregate half_life story_analyses = foldl (add_story half_life) [] story_analyses"

subsection \<open>From the aggregate to a recommendation\<close>

definition BUY_THRESHOLD :: real where "BUY_THRESHOLD = 15 / 100"
definition SELL_THRESHOLD :: real where "SELL_THRESHOLD = - (15 / 100)"
definition MIN_CONFIDENCE :: real where "MIN_CONFIDENCE = 3 / 10"
definition SENTIMENT_WEIGHT :: real where "SENTIMENT_WEIGHT = 55 / 100"
definition TECHNICAL_WEIGHT :: real where "TECHNICAL_WEIGHT = 45 / 100"

definition sentiment_agg :: "ticker_data \<Rightarrow> real" where
  "sentiment_agg td = weighted_score_sum td / weight_sum td"

definition td_sentiment_confidence :: "ticker_data \<Rightarrow> real" where
  "td_sentiment_confidence td =
     (let avg_confidence = confidence_sum td / real (story_count td)
      in min 1 (avg_confidence * min 1 (real (story_count td) / 3)))"

text \<open>The blended score \<^verbatim>\<open>agg_score\<close> and confidence \<^verbatim>\<open>combined_confidence\<close>.\<close>

definition agg_score :: "ticker_data \<Rightarrow> ta_snapshot option \<Rightarrow> real" where
  "agg_score td ta =
     (case ta of
        Some t \<Rightarrow> sentiment_agg td * SENTIMENT_WEIGHT + technical_score t * TECHNICAL_WEIGHT
      | None \<Rightarrow> sentiment_agg td)"

definition combined_confidence :: "ticker_data \<Rightarrow> ta_snapshot option \<Rightarrow> real" where
  "combined_confidence td ta =
     (case ta of
        Some t \<Rightarrow> td_sentiment_confidence td * SENTIMENT_WEIGHT
                  + technical_confidence t * TECHNICAL_WEIGHT
      | None \<Rightarrow> td_sentiment_confidence td)"

definition choose_action :: "real \<Rightarrow> real \<Rightarrow> action" where
  "choose_action s c =
     (if s > BUY_THRESHOLD \<and> c \<ge> MIN_CONFIDENCE then BUY
      else if s < SELL_THRESHOLD \<and> c \<ge> MIN_CONFIDENCE then SELL
      else HOLD)"

definition position_size :: "real \<Rightarrow> real \<Rightarrow> int" where
  "position_size conf abs_score =
     (let raw = conf * abs_score * 30 in max 1 (min 20 (round_half_even raw)))"

definition reason_text :: "string list \<Rightarrow> string" where
  "reason_text rs =
     join_str ''; '' (take 3 rs)
     @ (if length rs > 3 then '' (+'' @ show_nat (length rs - 3) @ '' more)'' else [])"

definition make_rec :: "string \<Rightarrow> ticker_data \<Rightarrow> ta_snapshot option \<Rightarrow> recommendation" where
  "make_rec ticker td ta =
     \<lparr>symbol = ticker,
      action = choose_action (agg_score td ta) (combined_confidence td ta),
      confidence = py_round (combined_confidence td ta) 3,
      reason = reason_text (reasons td),
      target_allocation_percent = position_size (combined_confidence td ta) \<bar>agg_score td ta\<bar>,
      aggregated_score = py_round (agg_score td ta) 4,
      rec_story_count = story_count td,
      rec_sentiment_score = py_round (sentiment_agg td) 4,
      rec_technical_score = map_option (\<lambda>t. py_round (technical_score t) 4) ta,
      technical_indicators = map_option indicators ta\<rparr>"

text \<open>
  The loop \<^verbatim>\<open>for ticker, td in ticker_data.items()\<close>: tickers with too little weight
  are skipped. An empty or absent \<^verbatim>\<open>technical_scores\<close> argument is the empty map.
\<close>

definition recommendations ::
  "(string \<times> ticker_data) list \<Rightarrow> (string \<rightharpoonup> ta_snapshot) \<Rightarrow> recommendation list" where
  "recommendations data technical_scores =
     map (\<lambda>(ticker, td). make_rec ticker td (technical_scores ticker))
       (filter (\<lambda>(ticker, td). \<not> weight_sum td < 1 / 100) data)"

definition action_order :: "action \<Rightarrow> nat" where
  "action_order a = (case a of BUY \<Rightarrow> 0 | SELL \<Rightarrow> 1 | HOLD \<Rightarrow> 2)"

text \<open>
  \<^verbatim>\<open>recommendations.sort(key=lambda r: (action_order.get(r["action"], 3), -r["confidence"]))\<close>:
  Python compares the key tuples lexicographically and its sort is stable, as
  \<^const>\<open>sort_key\<close> is.
\<close>

definition rec_key :: "recommendation \<Rightarrow> nat \<times> real" where
  "rec_key r = (action_order (action r), - confidence r)"

definition generate ::
  "real \<Rightarrow> story_analysis list \<Rightarrow> (string \<rightharpoonup> ta_snapshot) \<Rightarrow> recommendation list" where
  "generate half_life story_analyses technical_scores =
     sort_key rec_key (recommendations (aggregate half_life story_analyses) technical_scores)"

section \<open>The world outside the engine\<close>

text \<open>
  The module keeps three caches in global variables, reads the clock with
  \<^verbatim>\<open>datetime.now()\<close> and calls yfinance. The state is a record; every call of
  \<^verbatim>\<open>datetime.now()\<close> takes the next reading of the clock, and every call of a
  collaborator is appended to a log. The collaborators are functions of the time of the
  call, so that their answers may change; an exception they raise is a value.
\<close>

type_synonym time = int

datatype call = Search string | Quote string | History string

record search_quote =
  sq_symbol :: string
  sq_exchange :: string

record quote_info =
  currentPrice :: "real option"
  regularMarketPrice :: "real option"
  info_exchange :: string

record bar =
  bar_close :: real
  bar_volume :: real

datatype ta_result = TA_Fail string | TA_Ok ta_snapshot

record env =
  clock :: "nat \<Rightarrow> time"
  search :: "time \<Rightarrow> string \<Rightarrow> search_quote list option"
  quote :: "time \<Rightarrow> string \<Rightarrow> string + quote_info"
  history :: "time \<Rightarrow> string \<Rightarrow> bar list option"
  strptime :: "string \<Rightarrow> time option"

record world =
  ticks :: nat
  resolver_cache :: "string \<rightharpoonup> (string option \<times> time)"
  price_cache :: "string \<rightharpoonup> (real \<times> time)"
  ta_cache :: "string \<rightharpoonup> (ta_result \<times> time)"
  calls :: "call list"

definition minutes :: "int \<Rightarrow> time" where
  "minutes n = n * 60 * 1000000"

definition RESOLVER_CACHE_TTL :: time where "RESOLVER_CACHE_TTL = minutes 30"
definition CACHE_TTL :: time where "CACHE_TTL = minutes 2"
definition TA_CACHE_TTL :: time where "TA_CACHE_TTL = minutes 10"

text \<open>\<^verbatim>\<open>now = datetime.now()\<close>: the reading, and the world after it.\<close>

definition read_clock :: "env \<Rightarrow> world \<Rightarrow> time \<times> world" where
  "read_clock e w = (clock e (ticks w), w\<lparr>ticks := ticks w + 1\<rparr>)"

section \<open>Dynamic resolver\<close>

definition COMMON_PROPER_NOUNS :: "string list" where
  "COMMON_PROPER_NOUNS =
     [''Monday'', ''Tuesday'', ''Wednesday'', ''Thursday'', ''Friday'', ''Saturday'', ''Sunday'',
      ''January'', ''February'', ''March'', ''April'', ''May'', ''June'', ''July'', ''August'',
      ''September'', ''October'', ''November'', ''December'', ''Market'', ''Markets'', ''Stock'',
      ''Stocks'', ''Shares'', ''Share'', ''Trade'', ''Trading'', ''Report'', ''Revenue'',
      ''Quarter'', ''Quarterly'', ''Annual'', ''Earnings'', ''Profit'', ''Growth'', ''Sales'',
      ''Analyst'', ''Analysts'', ''Investors'', ''Investor'', ''Price'', ''Prices'', ''Rate'',
      ''Rates'', ''Index'', ''Funds'', ''Fund'', ''Bond'', ''Bonds'', ''Wall'', ''Street'',
      ''Exchange'', ''Global'', ''World'', ''International'', ''Today'', ''Yesterday'',
      ''Tomorrow'', ''According'', ''Reuters'', ''Bloomberg'', ''The'', ''And'', ''For'',
      ''But'', ''Not'', ''All'', ''Can'', ''Was'', ''One'', ''Our'', ''Out'', ''Its'', ''Has'',
      ''His'', ''How'', ''New'', ''Now'', ''Old'', ''See'', ''Way'', ''Who'', ''Did'', ''Get'',
      ''Let'', ''Say'', ''She'', ''Too'', ''Use'', ''After'', ''Also'', ''Most'', ''Some'',
      ''What'', ''When'', ''With'', ''More'', ''From'', ''Over'', ''Into'', ''Just'', ''Than'',
      ''Very'', ''About'', ''Before'', ''Could'', ''Every'', ''First'', ''Major'', ''Other'',
      ''Since'', ''Their'', ''These'', ''Those'', ''Under'', ''Where'', ''While'', ''Would'',
      ''Should'', ''North'', ''South'', ''East'', ''West'', ''Chief'', ''President'',
      ''Chairman'', ''Board'', ''Company'', ''Companies'', ''Data'', ''Technology'',
      ''Technologies'', ''Capital'', ''Group'', ''Inc'', ''Corp'', ''Corporation'', ''Limited'',
      ''Partners'', ''Holdings'', ''Rally'', ''Rallied'', ''Rallying'', ''Decline'',
      ''Declined'', ''Declining'', ''Surge'', ''Surged'', ''Surging'', ''Drop'', ''Dropped'',
      ''Dropping'', ''Rise'', ''Rising'', ''Risen'', ''Fall'', ''Falling'', ''Fell'', ''Gain'',
      ''Gained'', ''Gaining'', ''Loss'', ''Lost'', ''Losing'', ''Jump'', ''Jumped'', ''Jumping'',
      ''Slide'', ''Slid'', ''Sliding'', ''Boost'', ''Boosted'', ''Climb'', ''Climbed'',
      ''Plunge'', ''Plunged'', ''Beat'', ''Missed'', ''Exceeded'', ''Cut'', ''Raised'',
      ''Lower'', ''Higher'', ''Record'', ''Sell'', ''Buy'', ''Hold'', ''Yield'', ''Yields'',
      ''Chair'', ''Dovish'', ''Hawkish'', ''Bullish'', ''Bearish'', ''Soaring'', ''Soared'',
      ''Warning'', ''Alert'', ''Crisis'', ''Impact'', ''Shift'', ''Signal'', ''Signals'',
      ''Expected'', ''Announced'', ''Reported'', ''Filed'', ''Approved'', ''Denied'', ''Deal'',
      ''Merger'', ''Acquisition'', ''Partnership'', ''Launch'', ''Launched'', ''Federal'',
      ''Reserve'', ''Central'', ''Treasury'', ''Congress'', ''Senate'', ''Consensus'',
      ''Inflation'', ''Recession'', ''Unemployment'', ''Economy'', ''Sector'', ''Industry'',
      ''Regulatory'', ''Commission'', ''Authority'']"

definition COMMON_UPPER_WORDS :: "string list" where
  "COMMON_UPPER_WORDS =
     [''US'', ''USA'', ''UK'', ''EU'', ''UN'', ''CEO'', ''CFO'', ''COO'', ''CTO'', ''CMO'',
      ''IPO'', ''GDP'', ''SEC'', ''FBI'', ''CIA'', ''NSA'', ''DOJ'', ''IRS'', ''EPA'', ''FDA'',
      ''FAA'', ''FCC'', ''FTC'', ''DOD'', ''NASA'', ''OPEC'', ''NATO'', ''ETF'', ''ESG'',
      ''GDP'', ''CPI'', ''PPI'', ''PMI'', ''PCE'', ''NYSE'', ''NASDAQ'', ''DJIA'', ''AI'',
      ''EV'', ''EVS'', ''IOT'', ''IT'', ''HR'', ''PR'', ''VP'', ''II'', ''III'', ''IV'', ''AM'',
      ''PM'', ''YOY'', ''QOQ'', ''MOM'', ''ATH'', ''ATL'', ''EPS'', ''PE'', ''ROI'', ''ROE'',
      ''YTD'', ''MTD'', ''QTD'', ''M&A'', ''R&D'', ''B2B'', ''B2C'', ''DC'', ''APR'', ''AUG'',
      ''DEC'', ''FEB'', ''JAN'', ''JUL'', ''JUN'', ''MAR'', ''NOV'', ''OCT'', ''SEP'', ''MON'',
      ''TUE'', ''WED'', ''THU'', ''FRI'', ''SAT'', ''SUN'']"

definition VALID_EXCHANGES :: "string list" where
  "VALID_EXCHANGES =
     [''NMS'', ''NGM'', ''NCM'', ''NYQ'', ''NYSE'', ''NASDAQ'', ''NasijdaqGS'', ''PCX'']"

text \<open>The ASCII characters that \<^verbatim>\<open>str.strip()\<close> removes.\<close>

definition is_space :: "char \<Rightarrow> bool" where
  "is_space c =
     (c \<in> set [CHR '' '', CHR 0x09, CHR 0x0A, CHR 0x0B, CHR 0x0C, CHR 0x0D,
                CHR 0x1C, CHR 0x1D, CHR 0x1E, CHR 0x1F])"

definition strip :: "string \<Rightarrow> string" where
  "strip s = rev (dropWhile is_space (rev (dropWhile is_space s)))"

definition is_letter :: "char \<Rightarrow> bool" where
  "is_letter c = (is_lower c \<or> is_upper c)"

text \<open>The class \<^verbatim>\<open>\w\<close> on ASCII: letters, digits and the underscore.\<close>

definition is_word_char :: "char \<Rightarrow> bool" where
  "is_word_char c = (is_letter c \<or> c \<in> set ''0123456789_'')"

text \<open>
  \<^verbatim>\<open>_lookup\<close>: the first of the top three quotes with an accepted exchange and a
  non-empty symbol; an exception of the search gives \<^verbatim>\<open>None\<close>.
\<close>

definition lookup :: "env \<Rightarrow> time \<Rightarrow> string \<Rightarrow> string option" where
  "lookup e now name =
     (case search e now name of
        None \<Rightarrow> None
      | Some quotes \<Rightarrow>
          (case filter (\<lambda>q. sq_exchange q \<in> set VALID_EXCHANGES \<and> sq_symbol q \<noteq> [])
                  (take 3 quotes) of
             [] \<Rightarrow> None
           | q # _ \<Rightarrow> Some (sq_symbol q)))"

definition resolve :: "env \<Rightarrow> world \<Rightarrow> string \<Rightarrow> string option \<times> world" where
  "resolve e w name =
     (let cache_key = strip (lower name);
          (now, w1) = read_clock e w;
          fresh = (case resolver_cache w1 cache_key of
                     Some (cached_ticker, cached_at) \<Rightarrow> now - cached_at < RESOLVER_CACHE_TTL
                   | None \<Rightarrow> False)
      in if fresh then (fst (the (resolver_cache w1 cache_key)), w1)
         else (let ticker = lookup e now name
               in (ticker,
                   w1\<lparr>resolver_cache := (resolver_cache w1)(cache_key \<mapsto> (ticker, now)),
                      calls := calls w1 @ [Search name]\<rparr>)))"

text \<open>
  \<^verbatim>\<open>re.finditer(r'\b([A-Z][a-z]{1,20})\b', text)\<close>: at a word boundary an upper-case
  letter and the longest run of lower-case letters behind it, when the run has 1 to 20
  letters and a word boundary follows. \<open>prev\<close> is the character before the position,
  \<open>skip\<close> the number of characters left of the match found last.
\<close>

fun proper_nouns :: "char option \<Rightarrow> nat \<Rightarrow> string \<Rightarrow> string list" where
  "proper_nouns prev skip [] = []"
| "proper_nouns prev skip (c # cs) =
     (if 0 < skip then proper_nouns (Some c) (skip - 1) cs
      else (let run = takeWhile is_lower cs
            in if (case prev of None \<Rightarrow> True | Some p \<Rightarrow> \<not> is_word_char p)
                  \<and> is_upper c \<and> 1 \<le> length run \<and> length run \<le> 20
                  \<and> (case drop (length run) cs of [] \<Rightarrow> True | a # _ \<Rightarrow> \<not> is_word_char a)
               then (c # run) # proper_nouns (Some c) (length run) cs
               else proper_nouns (Some c) 0 cs))"

text \<open>
  \<^verbatim>\<open>re.finditer(r'(?<![a-zA-Z])([A-Z]{2,5})(?![a-zA-Z])', text)\<close>: a run of 2 to 5
  upper-case letters with no letter before it and none behind it.
\<close>

fun upper_runs :: "char option \<Rightarrow> nat \<Rightarrow> string \<Rightarrow> string list" where
  "upper_runs prev skip [] = []"
| "upper_runs prev skip (c # cs) =
     (if 0 < skip then upper_runs (Some c) (skip - 1) cs
      else (let run = takeWhile is_upper (c # cs)
            in if (case prev of None \<Rightarrow> True | Some p \<Rightarrow> \<not> is_letter p)
                  \<and> 2 \<le> length run \<and> length run \<le> 5
                  \<and> (case drop (length run) (c # cs) of [] \<Rightarrow> True | a # _ \<Rightarrow> \<not> is_letter a)
               then run # upper_runs (Some c) (length run - 1) cs
               else upper_runs (Some c) 0 cs))"

definition candidates :: "string \<Rightarrow> (string \<times> real) list" where
  "candidates text =
     (let c1 = foldl (\<lambda>d word. if word \<notin> set COMMON_PROPER_NOUNS \<and> 3 \<le> length word
                                 then dict_set d word (7 / 10) else d)
                 [] (proper_nouns None 0 text)
      in foldl (\<lambda>d word. if word \<notin> set COMMON_UPPER_WORDS then dict_set d word (9 / 10) else d)
           c1 (upper_runs None 0 text))"

text \<open>The loop \<^verbatim>\<open>for candidate, relevance in candidates.items()\<close>.\<close>

fun resolve_all ::
  "env \<Rightarrow> world \<Rightarrow> (string \<times> real) list \<Rightarrow> (string \<times> real) list
     \<Rightarrow> (string \<times> real) list \<times> world" where
  "resolve_all e w [] resolved = (resolved, w)"
| "resolve_all e w ((candidate, relevance) # rest) resolved =
     (case resolve e w candidate of
        (Some ticker, w') \<Rightarrow>
          if ticker \<noteq> []
          then resolve_all e w' rest
                 (dict_set resolved ticker
                    (max (case map_of resolved ticker of None \<Rightarrow> 0 | Some r \<Rightarrow> r) relevance))
          else resolve_all e w' rest resolved
      | (None, w') \<Rightarrow> resolve_all e w' rest resolved)"

definition extract_and_resolve ::
  "env \<Rightarrow> world \<Rightarrow> string \<Rightarrow> (string \<times> real) list \<times> world" where
  "extract_and_resolve e w text = resolve_all e w (candidates text) []"

section \<open>Company detector\<close>

text \<open>
  The alias table and the tradeable universe are arguments of the constructor; the
  universe, a Python set, is a list here, in the order in which the set is iterated.
\<close>

definition AMBIGUOUS_TICKERS :: "string list" where
  "AMBIGUOUS_TICKERS = [''T'', ''V'', ''HD'']"

text \<open>
  \<^verbatim>\<open>re.findall\<close> of a literal between two conditions on the neighbouring characters:
  the number of non-overlapping matches from left to right.
\<close>

fun count_literal ::
  "(char option \<Rightarrow> bool) \<Rightarrow> string \<Rightarrow> (char option \<Rightarrow> bool) \<Rightarrow> char option \<Rightarrow> nat \<Rightarrow> string
     \<Rightarrow> nat" where
  "count_literal before lit after prev skip [] = 0"
| "count_literal before lit after prev skip (c # cs) =
     (if 0 < skip then count_literal before lit after (Some c) (skip - 1) cs
      else if before prev \<and> starts_with (c # cs) lit
              \<and> after (case drop (length lit) (c # cs) of [] \<Rightarrow> None | a # _ \<Rightarrow> Some a)
           then 1 + count_literal before lit after (Some c) (length lit - 1) cs
           else count_literal before lit after (Some c) 0 cs)"

text \<open>
  The two patterns of step 2: \<^verbatim>\<open>\$TICKER\b\<close> for an ambiguous ticker, and
  \<^verbatim>\<open>(?<![a-zA-Z])TICKER(?![a-zA-Z])\<close> for the others. Tickers are letters.
\<close>

definition symbol_matches :: "string \<Rightarrow> string \<Rightarrow> nat" where
  "symbol_matches text ticker =
     (if ticker \<in> set AMBIGUOUS_TICKERS
      then count_literal (\<lambda>p. True) (CHR ''$'' # ticker)
             (\<lambda>a. case a of None \<Rightarrow> True | Some x \<Rightarrow> \<not> is_word_char x) None 0 text
      else count_literal (\<lambda>p. case p of None \<Rightarrow> True | Some x \<Rightarrow> \<not> is_letter x) ticker
             (\<lambda>a. case a of None \<Rightarrow> True | Some x \<Rightarrow> \<not> is_letter x) None 0 text)"

text \<open>\<^verbatim>\<open>ticker_hits[ticker] += n\<close> on the \<^verbatim>\<open>defaultdict(int)\<close>.\<close>

definition add_hits :: "(string \<times> int) list \<Rightarrow> string \<Rightarrow> int \<Rightarrow> (string \<times> int) list" where
  "add_hits hits ticker n =
     dict_set hits ticker ((case map_of hits ticker of None \<Rightarrow> 0 | Some h \<Rightarrow> h) + n)"

definition alias_hits ::
  "(string \<times> string) list \<Rightarrow> string list \<Rightarrow> string \<Rightarrow> (string \<times> int) list" where
  "alias_hits aliases tradeable text_lower =
     foldl (\<lambda>hits (alias, ticker).
              if ticker \<notin> set tradeable then hits
              else (let count = count_sub text_lower alias
                    in if 0 < count then add_hits hits ticker (int count) else hits))
       [] aliases"

definition symbol_hits ::
  "string list \<Rightarrow> string \<Rightarrow> (string \<times> int) list \<Rightarrow> (string \<times> int) list" where
  "symbol_hits tradeable text hits =
     foldl (\<lambda>hits ticker.
              (let n = symbol_matches text ticker
               in if 0 < n then add_hits hits ticker (int n) else hits))
       hits tradeable"

text \<open>
  Step 3: \<^verbatim>\<open>if ticker not in ticker_hits: ticker_hits[ticker] = max(1, int(relevance * 3))\<close>.
\<close>

definition dynamic_hit :: "(string \<times> int) list \<Rightarrow> string \<times> real \<Rightarrow> (string \<times> int) list" where
  "dynamic_hit hits tr =
     (if map_of hits (fst tr) = None
      then dict_set hits (fst tr) (max 1 (py_int (snd tr * 3)))
      else hits)"

definition merge_dynamic ::
  "(string \<times> int) list \<Rightarrow> (string \<times> real) list \<Rightarrow> (string \<times> int) list" where
  "merge_dynamic hits dynamic_hits = foldl dynamic_hit hits dynamic_hits"

definition relevances :: "(string \<times> int) list \<Rightarrow> (string \<times> real) list" where
  "relevances ticker_hits =
     (if ticker_hits = [] then []
      else (let max_hits = Max (set (map snd ticker_hits))
            in map (\<lambda>(ticker, hits).
                      (ticker, py_round (min 1 (real_of_int hits / real_of_int (max max_hits 1))) 3))
                 ticker_hits))"

definition detect ::
  "(string \<times> string) list \<Rightarrow> string list \<Rightarrow> env \<Rightarrow> world \<Rightarrow> string
     \<Rightarrow> (string \<times> real) list \<times> world" where
  "detect aliases tradeable e w text =
     (let ticker_hits = symbol_hits tradeable text (alias_hits aliases tradeable (lower text));
          (dynamic_hits, w') = extract_and_resolve e w text
      in (relevances (merge_dynamic ticker_hits dynamic_hits), w'))"

section \<open>Theme mapper\<close>

text \<open>
  The theme table and the tradeable universe are arguments of the constructor. The
  result is a \<^verbatim>\<open>defaultdict(float)\<close>: a ticker not seen yet starts from 0.
\<close>

definition map_themes ::
  "(string \<times> (string \<times> real) list) list \<Rightarrow> string list \<Rightarrow> string \<Rightarrow> (string \<times> real) list" where
  "map_themes themes tradeable text =
     foldl (\<lambda>ticker_relevance (keyword, stock_list).
              if contains (lower text) keyword
              then foldl (\<lambda>tr (ticker, weight).
                            if ticker \<in> set tradeable
                            then dict_set tr ticker
                                   (max (case map_of tr ticker of None \<Rightarrow> 0 | Some r \<Rightarrow> r) weight)
                            else tr)
                     ticker_relevance stock_list
              else ticker_relevance)
       [] themes"

section \<open>Exchange and price filter\<close>

datatype price_info = PriceOk string real "string option" | PriceFail string string

text \<open>
  \<^verbatim>\<open>info.get("currentPrice") or info.get("regularMarketPrice")\<close>: a missing or zero
  current price gives way to the regular market price.
\<close>

definition price_of :: "quote_info \<Rightarrow> real option" where
  "price_of info =
     (case currentPrice info of
        Some p \<Rightarrow> if p \<noteq> 0 then Some p else regularMarketPrice info
      | None \<Rightarrow> regularMarketPrice info)"

definition get_price_info :: "env \<Rightarrow> world \<Rightarrow> string \<Rightarrow> price_info \<times> world" where
  "get_price_info e w ticker =
     (let (now, w1) = read_clock e w;
          fresh = (case price_cache w1 ticker of
                     Some (price, cached_at) \<Rightarrow> now - cached_at < CACHE_TTL
                   | None \<Rightarrow> False)
      in if fresh then (PriceOk ticker (fst (the (price_cache w1 ticker))) None, w1)
         else (let w2 = w1\<lparr>calls := calls w1 @ [Quote ticker]\<rparr>
               in case quote e now ticker of
                    Inl msg \<Rightarrow> (PriceFail ticker msg, w2)
                  | Inr info \<Rightarrow>
                      (case price_of info of
                         None \<Rightarrow> (PriceFail ticker ''no price data'', w2)
                       | Some p \<Rightarrow>
                           (let price = py_round p 2
                            in (PriceOk ticker price (Some (info_exchange info)),
                                w2\<lparr>price_cache := (price_cache w2)(ticker \<mapsto> (price, now))\<rparr>)))))"

text \<open>The loop of \<^verbatim>\<open>filter\<close>, with the dictionary \<^verbatim>\<open>valid\<close> built so far.\<close>

fun filter_loop ::
  "env \<Rightarrow> real \<Rightarrow> world \<Rightarrow> string list \<Rightarrow> (string \<times> real) list
     \<Rightarrow> (string \<times> real) list \<times> world" where
  "filter_loop e min_price w [] valid = (valid, w)"
| "filter_loop e min_price w (ticker # rest) valid =
     (case get_price_info e w ticker of
        (PriceFail _ _, w') \<Rightarrow> filter_loop e min_price w' rest valid
      | (PriceOk _ price _, w') \<Rightarrow>
          if price < min_price then filter_loop e min_price w' rest valid
          else filter_loop e min_price w' rest (dict_set valid ticker price))"

definition filter_tickers ::
  "env \<Rightarrow> real \<Rightarrow> world \<Rightarrow> string list \<Rightarrow> (string \<times> real) list \<times> world" where
  "filter_tickers e min_price w symbols = filter_loop e min_price w symbols []"

text \<open>What one lookup contributes to the result of the filter.\<close>

definition passes :: "env \<Rightarrow> real \<Rightarrow> world \<Rightarrow> string \<Rightarrow> real option" where
  "passes e min_price w ticker =
     (case fst (get_price_info e w ticker) of
        PriceOk _ price _ \<Rightarrow> if price < min_price then None else Some price
      | PriceFail _ _ \<Rightarrow> None)"

text \<open>
  The lookups of one run of the filter that pass, in the order of the run: each ticker
  is looked up in the world that the lookups before it have left.
\<close>

fun passed :: "env \<Rightarrow> real \<Rightarrow> world \<Rightarrow> string list \<Rightarrow> (string \<times> real) list" where
  "passed e min_price w [] = []"
| "passed e min_price w (ticker # rest) =
     (case passes e min_price w ticker of Some p \<Rightarrow> [(ticker, p)] | None \<Rightarrow> [])
     @ passed e min_price (snd (get_price_info e w ticker)) rest"

section \<open>Technical analyzer\<close>

subsection \<open>Series\<close>

definition mean :: "real list \<Rightarrow> real" where
  "mean xs = sum_list xs / real (length xs)"

text \<open>The last \<open>n\<close> values: the window of \<^verbatim>\<open>rolling(n)\<close> at \<^verbatim>\<open>iloc[-1]\<close>.\<close>

definition last_n :: "nat \<Rightarrow> 'a list \<Rightarrow> 'a list" where
  "last_n n xs = drop (length xs - n) xs"

text \<open>\<^verbatim>\<open>closes.diff()\<close> without its first, undefined entry.\<close>

definition deltas :: "real list \<Rightarrow> real list" where
  "deltas xs = map (\<lambda>(a, b). b - a) (zip xs (tl xs))"

text \<open>\<^verbatim>\<open>ewm(span=n, adjust=False).mean()\<close>\<close>

fun ewm_from :: "real \<Rightarrow> real \<Rightarrow> real list \<Rightarrow> real list" where
  "ewm_from alpha y [] = []"
| "ewm_from alpha y (x # xs) =
     ((1 - alpha) * y + alpha * x) # ewm_from alpha ((1 - alpha) * y + alpha * x) xs"

definition ewm :: "real \<Rightarrow> real list \<Rightarrow> real list" where
  "ewm n xs = (case xs of [] \<Rightarrow> [] | x # rest \<Rightarrow> x # ewm_from (2 / (n + 1)) x rest)"

subsection \<open>Indicators\<close>

definition compute_rsi :: "real list \<Rightarrow> real option" where
  "compute_rsi closes =
     (if length closes < 14 + 1 then None
      else (let delta = deltas closes;
                last_gain = mean (last_n 14 (map (\<lambda>d. if d > 0 then d else 0) delta));
                last_loss = mean (last_n 14 (map (\<lambda>d. - (if d < 0 then d else 0)) delta))
            in if last_loss < 1 / 10 ^ 10 then Some 100
               else Some (100 - 100 / (1 + last_gain / last_loss))))"

record ma_signals =
  ma_sma_20 :: real
  ma_sma_50 :: "real option"
  ma_ema_12 :: real
  ma_price :: real
  ma_price_above_sma20 :: bool
  ma_price_above_sma50 :: bool
  ma_sma20_above_sma50 :: bool

definition compute_ma_signals :: "real list \<Rightarrow> ma_signals option" where
  "compute_ma_signals closes =
     (if length closes < 20 then None
      else (let sma_20 = mean (last_n 20 closes);
                sma_50 = (if length closes \<ge> 50 then Some (mean (last_n 50 closes)) else None);
                ema_12 = last (ewm 12 closes);
                current = last closes
            in Some \<lparr>ma_sma_20 = sma_20, ma_sma_50 = sma_50, ma_ema_12 = ema_12,
                     ma_price = current,
                     ma_price_above_sma20 = (current > sma_20),
                     ma_price_above_sma50 = (case sma_50 of Some s \<Rightarrow> current > s | None \<Rightarrow> True),
                     ma_sma20_above_sma50 = (case sma_50 of Some s \<Rightarrow> sma_20 > s | None \<Rightarrow> True)\<rparr>))"

record macd_signals =
  ms_macd :: real
  ms_signal :: real
  ms_histogram :: real
  ms_bullish_crossover :: bool
  ms_bearish_crossover :: bool

definition compute_macd :: "real list \<Rightarrow> macd_signals option" where
  "compute_macd closes =
     (if length closes < 26 then None
      else (let macd_line = map (\<lambda>(a, b). a - b) (zip (ewm 12 closes) (ewm 26 closes));
                signal_line = ewm 9 macd_line;
                n = length macd_line
            in Some \<lparr>ms_macd = last macd_line, ms_signal = last signal_line,
                     ms_histogram = last macd_line - last signal_line,
                     ms_bullish_crossover =
                       (n \<ge> 2 \<and> last macd_line > last signal_line
                        \<and> macd_line ! (n - 2) \<le> signal_line ! (n - 2)),
                     ms_bearish_crossover =
                       (n \<ge> 2 \<and> last macd_line < last signal_line
                        \<and> macd_line ! (n - 2) \<ge> signal_line ! (n - 2))\<rparr>))"

record volume_signal =
  vs_volume_ratio :: real
  vs_avg_volume :: real
  vs_current_volume :: real

definition compute_volume_signal :: "real list \<Rightarrow> volume_signal" where
  "compute_volume_signal volumes =
     (if length volumes < 20
      then \<lparr>vs_volume_ratio = 1, vs_avg_volume = 0, vs_current_volume = 0\<rparr>
      else (let avg_vol = mean (last_n 20 volumes); current_vol = last volumes
            in \<lparr>vs_volume_ratio = current_vol / max avg_vol 1, vs_avg_volume = avg_vol,
                vs_current_volume = current_vol\<rparr>))"

definition compute_roc :: "real list \<Rightarrow> real option" where
  "compute_roc closes =
     (if length closes < 10 + 1 then None
      else (let current = last closes; past = closes ! (length closes - (10 + 1))
            in if \<bar>past\<bar> < 1 / 10 ^ 10 then None
               else Some ((current - past) / past * 100)))"

subsection \<open>Scores\<close>

definition score_rsi :: "real \<Rightarrow> real" where
  "score_rsi r =
     (if r \<le> 25 then 8 / 10 + 2 / 10 * (25 - r) / 25
      else if r \<le> 40 then 8 / 10 * (40 - r) / 15
      else if r \<le> 60 then 0
      else if r \<le> 75 then - (8 / 10) * (r - 60) / 15
      else - (8 / 10) - 2 / 10 * (r - 75) / 25)"

definition score_roc :: "real \<Rightarrow> real" where
  "score_roc roc = max (- 1) (min 1 (tanh (roc / 8)))"

definition score_ma :: "ma_signals \<Rightarrow> real" where
  "score_ma ma =
     max (- 1) (min 1
       (0 + (if ma_price_above_sma20 ma then 3 / 10 else - (3 / 10))
          + (if ma_price_above_sma50 ma then 3 / 10 else - (3 / 10))
          + (if ma_sma20_above_sma50 ma then 4 / 10 else - (4 / 10))))"

definition score_macd :: "macd_signals \<Rightarrow> real" where
  "score_macd m =
     (if ms_bullish_crossover m then 7 / 10
      else if ms_bearish_crossover m then - (7 / 10)
      else if ms_histogram m > 0 then 3 / 10 else - (3 / 10))"

subsection \<open>The composite\<close>

definition RSI_WEIGHT :: real where "RSI_WEIGHT = 25 / 100"
definition MA_WEIGHT :: real where "MA_WEIGHT = 30 / 100"
definition MACD_WEIGHT :: real where "MACD_WEIGHT = 30 / 100"
definition ROC_WEIGHT :: real where "ROC_WEIGHT = 15 / 100"

definition snapshot ::
  "string \<Rightarrow> real \<Rightarrow> ma_signals \<Rightarrow> macd_signals \<Rightarrow> volume_signal \<Rightarrow> real option \<Rightarrow> ta_snapshot" where
  "snapshot ticker r ma m vol roc =
     (let r_score = score_rsi r;
          m_score = score_ma ma;
          c_score = score_macd m;
          o_score = (case roc of Some x \<Rightarrow> score_roc x | None \<Rightarrow> 0);
          vol_ratio = vs_volume_ratio vol;
          vol_multiplier = (if vol_ratio > 15 / 10 then 1 + min (4 / 10) ((vol_ratio - 1) * (2 / 10))
                            else if vol_ratio < 5 / 10 then 7 / 10 else 1);
          raw_score = r_score * RSI_WEIGHT + m_score * MA_WEIGHT + c_score * MACD_WEIGHT
                      + o_score * ROC_WEIGHT;
          t_score = max (- 1) (min 1 (raw_score * vol_multiplier));
          agreement = real (length (filter (\<lambda>x. x * raw_score > 0)
                                      [r_score, m_score, c_score, o_score])) / 4;
          signal_strength = min 1 (\<bar>raw_score\<bar> * 2);
          t_confidence = min 1 (3 / 10 + agreement * (4 / 10) + signal_strength * (3 / 10))
      in \<lparr>ta_symbol = ticker,
          technical_score = py_round t_score 4,
          technical_confidence = py_round t_confidence 3,
          rsi = py_round r 2,
          rsi_score = py_round r_score 4,
          ma_score = py_round m_score 4,
          macd_score = py_round c_score 4,
          roc_score = py_round o_score 4,
          volume_ratio = py_round vol_ratio 2,
          indicators =
            \<lparr>ind_rsi = py_round r 2,
             ind_sma_20 = py_round (ma_sma_20 ma) 2,
             ind_sma_50 = map_option (\<lambda>x. py_round x 2) (ma_sma_50 ma),
             ind_ema_12 = py_round (ma_ema_12 ma) 2,
             ind_price = py_round (ma_price ma) 2,
             ind_price_above_sma20 = ma_price_above_sma20 ma,
             ind_price_above_sma50 = ma_price_above_sma50 ma,
             ind_sma20_above_sma50 = ma_sma20_above_sma50 ma,
             ind_macd = py_round (ms_macd m) 4,
             ind_macd_signal = py_round (ms_signal m) 4,
             ind_macd_histogram = py_round (ms_histogram m) 4,
             ind_macd_bullish_crossover = ms_bullish_crossover m,
             ind_macd_bearish_crossover = ms_bearish_crossover m,
             ind_roc = map_option (\<lambda>x. py_round x 4) roc,
             ind_volume_ratio = py_round vol_ratio 2,
             ind_avg_volume = vs_avg_volume vol,
             ind_current_volume = vs_current_volume vol\<rparr>\<rparr>)"

text \<open>
  \<^verbatim>\<open>_compute\<close>: the history of three months in daily bars; an exception of the
  collaborator or no history gives the failure.
\<close>

definition compute :: "env \<Rightarrow> time \<Rightarrow> string \<Rightarrow> ta_result" where
  "compute e now ticker =
     (case history e now ticker of
        None \<Rightarrow> TA_Fail ticker
      | Some hist \<Rightarrow>
          if length hist < 20 then TA_Fail ticker
          else (let closes = map bar_close hist; volumes = map bar_volume hist
                in case (compute_rsi closes, compute_ma_signals closes, compute_macd closes) of
                     (Some r, Some ma, Some m) \<Rightarrow>
                       TA_Ok (snapshot ticker r ma m (compute_volume_signal volumes)
                                (compute_roc closes))
                   | _ \<Rightarrow> TA_Fail ticker))"

definition ta_success :: "ta_result \<Rightarrow> bool" where
  "ta_success r = (case r of TA_Ok _ \<Rightarrow> True | TA_Fail _ \<Rightarrow> False)"

definition ta_analyze :: "env \<Rightarrow> world \<Rightarrow> string \<Rightarrow> ta_result \<times> world" where
  "ta_analyze e w ticker =
     (let (now, w1) = read_clock e w;
          fresh = (case ta_cache w1 ticker of
                     Some (cached, cached_at) \<Rightarrow> now - cached_at < TA_CACHE_TTL
                   | None \<Rightarrow> False)
      in if fresh then (fst (the (ta_cache w1 ticker)), w1)
         else (let result = compute e now ticker
               in (result,
                   w1\<lparr>ta_cache := (ta_cache w1)(ticker \<mapsto> (result, now)),
                      calls := calls w1 @ [History ticker]\<rparr>)))"

section \<open>Engine\<close>

text \<open>
  A story with its four keys; a key that is missing is the empty string, as
  \<^verbatim>\<open>story.get(key, "")\<close> makes it.
\<close>

record story =
  st_text :: string
  st_title :: string
  st_summary :: string
  st_published :: string

record story_detail =
  sd_snippet :: string
  sd_sentiment :: sentiment_label
  sd_sentiment_score :: real
  sd_sentiment_confidence :: real
  sd_word_hits :: nat
  sd_companies_detected :: "(string \<times> real) list"
  sd_themes_matched :: "(string \<times> real) list"
  sd_combined_tickers :: "(string \<times> real) list"
  sd_age_hours :: real

text \<open>
  The components of \<^verbatim>\<open>LocalTradingEngine\<close> are built from the alias table, the
  tradeable universe, the theme table, the minimum price and the half-life.
\<close>

record engine =
  eng_aliases :: "(string \<times> string) list"
  eng_tradeable :: "string list"
  eng_themes :: "(string \<times> (string \<times> real) list) list"
  eng_min_price :: real
  eng_half_life :: real

record engine_result =
  er_success :: bool
  analysis_summary :: string
  er_recommendations :: "recommendation list"
  er_story_details :: "story_detail list"
  er_timestamp :: time
  er_provider :: string
  er_model :: string
  stories_analyzed :: nat
  tickers_detected :: nat

text \<open>\<^verbatim>\<open>s.strip(chars)\<close>\<close>

definition strip_chars :: "string \<Rightarrow> string \<Rightarrow> string" where
  "strip_chars chars s =
     rev (dropWhile (\<lambda>c. c \<in> set chars) (rev (dropWhile (\<lambda>c. c \<in> set chars) s)))"

definition story_text :: "story \<Rightarrow> string" where
  "story_text st =
     (if st_text st \<noteq> [] then st_text st
      else strip_chars ''. '' (st_title st @ ''. '' @ st_summary st))"

text \<open>
  \<^verbatim>\<open>_parse_age_hours\<close>: \<open>strptime\<close> of the environment stands for the loop over the
  six formats and gives the time parsed, without its zone.
\<close>

definition parse_age_hours :: "env \<Rightarrow> string \<Rightarrow> time \<Rightarrow> real" where
  "parse_age_hours e published_str now =
     (if published_str = [] then 1
      else (case strptime e (strip published_str) of
              Some dt \<Rightarrow> max 0 (real_of_int (now - dt) / 1000000 / 3600)
            | None \<Rightarrow> 1))"

text \<open>The merge of the detected and the themed tickers of one story.\<close>

definition combine_tickers ::
  "(string \<times> real) list \<Rightarrow> (string \<times> real) list \<Rightarrow> (string \<times> real) list" where
  "combine_tickers detected themed =
     foldl (\<lambda>combined (t, rel).
              dict_set combined t
                (min 1 ((case map_of combined t of None \<Rightarrow> 0 | Some r \<Rightarrow> r) + rel * (6 / 10))))
       detected themed"

text \<open>
  The body of the loop over the stories: the analyses, the candidate tickers, the
  details and the world so far.
\<close>

definition analyze_story ::
  "engine \<Rightarrow> env \<Rightarrow> time
     \<Rightarrow> story_analysis list \<times> (string \<times> real) list \<times> story_detail list \<times> world
     \<Rightarrow> story
     \<Rightarrow> story_analysis list \<times> (string \<times> real) list \<times> story_detail list \<times> world" where
  "analyze_story eng e now acc st =
     (case acc of (story_analyses, all_tickers, story_details, w) \<Rightarrow>
        (let txt = story_text st
         in if txt = [] then acc
            else (let sent = analyze FINANCIAL_LEXICON txt;
                      (detected, w') = detect (eng_aliases eng) (eng_tradeable eng) e w txt;
                      themed = map_themes (eng_themes eng) (eng_tradeable eng) txt;
                      combined = combine_tickers detected themed;
                      age_hours = parse_age_hours e (st_published st) now;
                      details = story_details @
                        [\<lparr>sd_snippet = take 120 txt,
                          sd_sentiment = sentiment sent,
                          sd_sentiment_score = score sent,
                          sd_sentiment_confidence = sr_confidence sent,
                          sd_word_hits = word_hits sent,
                          sd_companies_detected = detected,
                          sd_themes_matched = themed,
                          sd_combined_tickers = combined,
                          sd_age_hours = py_round age_hours 1\<rparr>]
                  in if combined = [] then (story_analyses, all_tickers, details, w')
                     else (story_analyses @
                             [\<lparr>sentiment_score = score sent,
                               sentiment_confidence = sr_confidence sent,
                               tickers = combined,
                               story_age_hours = age_hours,
                               story_snippet = take 100 txt\<rparr>],
                           foldl (\<lambda>a (t, rel).
                                    dict_set a t
                                      (max (case map_of a t of None \<Rightarrow> 0 | Some r \<Rightarrow> r) rel))
                             all_tickers combined,
                           details, w'))))"

definition analyze_all ::
  "engine \<Rightarrow> env \<Rightarrow> time \<Rightarrow> world \<Rightarrow> story list
     \<Rightarrow> story_analysis list \<times> (string \<times> real) list \<times> story_detail list \<times> world" where
  "analyze_all eng e now w stories = foldl (analyze_story eng e now) ([], [], [], w) stories"

text \<open>Step 2.5: the technical analysis of every valid ticker; failures are left out.\<close>

fun technical_all ::
  "env \<Rightarrow> world \<Rightarrow> string list \<Rightarrow> (string \<times> ta_snapshot) list
     \<Rightarrow> (string \<times> ta_snapshot) list \<times> world" where
  "technical_all e w [] technical_scores = (technical_scores, w)"
| "technical_all e w (ticker # rest) technical_scores =
     (case ta_analyze e w ticker of
        (TA_Ok snap, w') \<Rightarrow> technical_all e w' rest (dict_set technical_scores ticker snap)
      | (TA_Fail _, w') \<Rightarrow> technical_all e w' rest technical_scores)"

text \<open>\<^verbatim>\<open>xs[:n]\<close> for an integer \<open>n\<close>, which may be negative.\<close>

definition py_take :: "int \<Rightarrow> 'a list \<Rightarrow> 'a list" where
  "py_take n xs = (if 0 \<le> n then take (nat n) xs else take (length xs - nat (- n)) xs)"

definition summary_text :: "nat \<Rightarrow> nat \<Rightarrow> nat \<Rightarrow> recommendation list \<Rightarrow> string" where
  "summary_text n_stories n_valid n_technical recs =
     (let buy_count = length (filter (\<lambda>r. action r = BUY) recs);
          sell_count = length (filter (\<lambda>r. action r = SELL) recs);
          bias = (if buy_count > sell_count then ''bullish''
                  else if sell_count > buy_count then ''bearish'' else ''mixed'');
          ta_note = (if n_technical \<noteq> 0
                     then '' Technical analysis applied to '' @ show_nat n_technical @ '' tickers.''
                     else [])
      in ''Analyzed '' @ show_nat n_stories @ '' stories, detected '' @ show_nat n_valid
         @ '' tradeable tickers.'' @ ta_note @ '' Overall bias is '' @ bias @ '' with ''
         @ show_nat buy_count @ '' BUY and '' @ show_nat sell_count @ '' SELL signals.'')"

definition analyze_stories ::
  "engine \<Rightarrow> env \<Rightarrow> world \<Rightarrow> story list \<Rightarrow> time option \<Rightarrow> bool \<Rightarrow> int
     \<Rightarrow> engine_result \<times> world" where
  "analyze_stories eng e w stories now_arg filter_hold max_recommendations =
     (let (now, w0) = (case now_arg of None \<Rightarrow> read_clock e w | Some t \<Rightarrow> (t, w));
          (story_analyses, all_tickers, story_details, w1) = analyze_all eng e now w0 stories
      in if story_analyses = [] then
           (\<lparr>er_success = True,
             analysis_summary = ''No actionable stories found in the current news feed.'',
             er_recommendations = [],
             er_story_details = story_details,
             er_timestamp = now,
             er_provider = ''local_nlp'',
             er_model = ''financial_lexicon_v1'',
             stories_analyzed = length stories,
             tickers_detected = 0\<rparr>, w1)
         else
           (let (valid_prices, w2) =
                  filter_tickers e (eng_min_price eng) w1 (map fst all_tickers);
                filtered =
                  filter (\<lambda>a. tickers a \<noteq> [])
                    (map (\<lambda>a. a\<lparr>tickers :=
                                   filter (\<lambda>(t, r). map_of valid_prices t \<noteq> None) (tickers a)\<rparr>)
                       story_analyses);
                (technical_scores, w3) = technical_all e w2 (map fst valid_prices) [];
                raw_recs = generate (eng_half_life eng) filtered (map_of technical_scores);
                kept = (if filter_hold then filter (\<lambda>r. action r \<noteq> HOLD) raw_recs else raw_recs);
                recs = py_take max_recommendations kept
            in (\<lparr>er_success = True,
                 analysis_summary =
                   summary_text (length stories) (length valid_prices)
                     (length technical_scores) recs,
                 er_recommendations = recs,
                 er_story_details = story_details,
                 er_timestamp = now,
                 er_provider = ''local_nlp'',
                 er_model = ''financial_lexicon_v1'',
                 stories_analyzed = length stories,
                 tickers_detected = length valid_prices\<rparr>, w3)))"

section \<open>Sample worlds\<close>

definition world0 :: world where
  "world0 = \<lparr>ticks = 0, resolver_cache = Map.empty, price_cache = Map.empty,
              ta_cache = Map.empty, calls = []\<rparr>"

text \<open>A symbol search that knows Uber on the NYSE and nothing else.\<close>

definition uber_env :: env where
  "uber_env =
     \<lparr>clock = (\<lambda>n. 0),
      search = (\<lambda>t name. if name = ''UBER''
                  then Some [\<lparr>sq_symbol = ''UBER'', sq_exchange = ''NYQ''\<rparr>] else None),
      quote = (\<lambda>t s. Inl ''no data''),
      history = (\<lambda>t s. None),
      strptime = (\<lambda>s. None)\<rparr>"

text \<open>A price history of \<open>n\<close> equal bars.\<close>

definition flat_bar :: bar where
  "flat_bar = \<lparr>bar_close = 100, bar_volume = 1000\<rparr>"

definition bars_env :: "nat \<Rightarrow> env" where
  "bars_env n =
     \<lparr>clock = (\<lambda>k. 0),
      search = (\<lambda>t name. None),
      quote = (\<lambda>t s. Inl ''no data''),
      history = (\<lambda>t s. Some (replicate n flat_bar)),
      strptime = (\<lambda>s. None)\<rparr>"

text \<open>The same collaborators, with other exchanges reported by the quote lookup.\<close>

definition with_exchange :: "(time \<Rightarrow> string \<Rightarrow> string) \<Rightarrow> env \<Rightarrow> env" where
  "with_exchange ex e =
     e\<lparr>quote := (\<lambda>t s. case quote e t s of
                           Inl msg \<Rightarrow> Inl msg
                         | Inr info \<Rightarrow> Inr (info\<lparr>info_exchange := ex t s\<rparr>))\<rparr>"

text \<open>A quote lookup with a good price, a penny stock, an error and no exchange.\<close>

definition quote_env :: env where
  "quote_env =
     \<lparr>clock = (\<lambda>n. int n),
      search = (\<lambda>t name. None),
      quote = (\<lambda>t s.
         if s = ''AAPL'' then Inr \<lparr>currentPrice = Some 150, regularMarketPrice = None,
                                    info_exchange = ''NMS''\<rparr>
         else if s = ''PENNY'' then Inr \<lparr>currentPrice = Some 3, regularMarketPrice = None,
                                         info_exchange = ''NMS''\<rparr>
         else if s = ''NOEX'' then Inr \<lparr>currentPrice = None, regularMarketPrice = Some 20,
                                        info_exchange = []\<rparr>
         else Inl ''connection error''),
      history = (\<lambda>t s. None),
      strptime = (\<lambda>s. None)\<rparr>"

text \<open>A quote lookup that reports the price 7.996 for every ticker.\<close>

definition rounding_env :: env where
  "rounding_env =
     \<lparr>clock = (\<lambda>n. int n),
      search = (\<lambda>t name. None),
      quote = (\<lambda>t s. Inr \<lparr>currentPrice = Some (7996 / 1000), regularMarketPrice = None,
                            info_exchange = ''NMS''\<rparr>),
      history = (\<lambda>t s. None),
      strptime = (\<lambda>s. None)\<rparr>"

text \<open>
  A quote lookup whose price falls from 10 to 5 after the first call, with five minutes
  between two readings of the clock.
\<close>

definition dup_env :: env where
  "dup_env =
     \<lparr>clock = (\<lambda>n. minutes (5 * int n)),
      search = (\<lambda>t name. None),
      quote = (\<lambda>t s. Inr \<lparr>currentPrice = Some (if t = 0 then 10 else 5),
                            regularMarketPrice = None, info_exchange = ''NMS''\<rparr>),
      history = (\<lambda>t s. None),
      strptime = (\<lambda>s. None)\<rparr>"



text \<open>An engine, a story and the world after its analysis.\<close>

definition sample_engine :: engine where
  "sample_engine =
     \<lparr>eng_aliases = [(''apple'', ''AAPL'')],
      eng_tradeable = [''AAPL'', ''PENNY''],
      eng_themes = [(''chip'', [(''NVDA'', 9 / 10)])],
      eng_min_price = 8,
      eng_half_life = 6\<rparr>"

definition sample_story :: story where
  "sample_story = \<lparr>st_text = ''AAPL PENNY'', st_title = [], st_summary = [], st_published = []\<rparr>"

definition sample_world1 :: world where
  "sample_world1 =
     \<lparr>ticks = 2,
      resolver_cache = [''aapl'' \<mapsto> (None, 0), ''penny'' \<mapsto> (None, 1)],
      price_cache = Map.empty, ta_cache = Map.empty,
      calls = [Search ''AAPL'', Search ''PENNY'']\<rparr>"

subsection \<open>Inputs used to exercise the signal generator\<close>

definition boundary_story :: story_analysis where
  "boundary_story =
     \<lparr>sentiment_score = 15 / 100, sentiment_confidence = 1, tickers = [(''NVDA'', 1)],
      story_age_hours = 0, story_snippet = ''NVDA holds steady''\<rparr>"

definition order_stories :: "story_analysis list" where
  "order_stories =
     [\<lparr>sentiment_score = 6 / 10, sentiment_confidence = 9 / 10, tickers = [(''AA'', 1)],
       story_age_hours = 0, story_snippet = ''AA gains''\<rparr>,
      \<lparr>sentiment_score = 0, sentiment_confidence = 1, tickers = [(''CC'', 1)],
       story_age_hours = 0, story_snippet = ''CC unchanged''\<rparr>,
      \<lparr>sentiment_score = 5 / 10, sentiment_confidence = 1, tickers = [(''BB'', 1)],
       story_age_hours = 0, story_snippet = ''BB gains''\<rparr>]"

section \<open>Properties\<close>

subsection \<open>Decay of the weight with the age of a story\<close>

lemma decay_lambda_pos: "0 < decay_lambda h"
  by (simp add: decay_lambda_def max_def)

lemma math_exp_mono: "x \<le> y \<Longrightarrow> math_exp x \<le> math_exp y"
  by (simp add: math_exp_def)

lemma math_exp_range: "x \<le> 0 \<Longrightarrow> 0 \<le> math_exp x \<and> math_exp x \<le> 1"
  by (simp add: math_exp_def)

lemma ln_2_ge_half: "1 / 2 \<le> ln (2 :: real)"
proof -
  have "norm (exp (1 / 2 :: real)) \<le> 2"
    by (rule exp_bound_half) simp
  then have "exp (1 / 2 :: real) \<le> 2" by simp
  then have "ln (exp (1 / 2 :: real)) \<le> ln 2"
    by (subst ln_le_cancel_iff) simp_all
  then show ?thesis by simp
qed

lemma weight_underflow:
  assumes "9000 \<le> age"
  shows "time_decay_weight 6 age = 0"
proof -
  have "(1 / 2) * (9000 / 6) \<le> ln 2 * (age / 6)"
    using ln_2_ge_half assms by (intro mult_mono) simp_all
  then have "746 < ln 2 * (age / 6)" by simp
  then have "- (ln 2 / 6 * age) < - 746" by simp
  moreover have "max age 0 = age" using assms by simp
  ultimately show ?thesis
    by (simp add: time_decay_weight_def decay_lambda_def math_exp_def)
qed

text \<open>
  C6, as stated: for every pair of ages with \<open>age1 < age2\<close> the weight of \<open>age1\<close> is
  strictly larger. At the default half-life of 6 hours the stories of age 10000 and
  20000 hours both get the weight 0.0: the exponential underflows.
\<close>

theorem C6_decay_strict_counterexample:
  "(0 :: real) \<le> 10000 \<and> (10000 :: real) < 20000
   \<and> time_decay_weight 6 10000 = 0 \<and> time_decay_weight 6 20000 = 0
   \<and> \<not> (time_decay_weight 6 10000 > time_decay_weight 6 20000)"
proof -
  have "time_decay_weight 6 10000 = 0" by (rule weight_underflow) simp
  moreover have "time_decay_weight 6 20000 = 0" by (rule weight_underflow) simp
  ultimately show ?thesis by simp
qed

text \<open>
  C6, amended: the weight is non-increasing in the age of the story (not strictly
  decreasing), it lies between 0 and 1, it is 1 for an age of zero or less, and it is
  \<open>math.exp(-(ln 2 / max(halfLife, 0.1)) * max(age, 0))\<close>, which is
  \<open>math.exp(-ln 2 / halfLife * age)\<close> for a half-life of at least 0.1 and an age of at
  least zero.
\<close>

theorem C6_decay_monotone:
  "(age1 \<le> age2 \<longrightarrow> time_decay_weight h age2 \<le> time_decay_weight h age1)
   \<and> 0 \<le> time_decay_weight h age1 \<and> time_decay_weight h age1 \<le> 1
   \<and> (age1 \<le> 0 \<longrightarrow> time_decay_weight h age1 = 1)
   \<and> time_decay_weight h age1 = math_exp (- (ln 2 / max h (1 / 10)) * max age1 0)
   \<and> (1 / 10 \<le> h \<and> 0 \<le> age1 \<longrightarrow> time_decay_weight h age1 = math_exp (- ln 2 / h * age1))"
proof -
  have pos: "0 < decay_lambda h" by (rule decay_lambda_pos)
  have mono: "time_decay_weight h age2 \<le> time_decay_weight h age1" if "age1 \<le> age2"
  proof -
    have "max age1 0 \<le> max age2 0" using that by (simp add: max_def)
    then have "decay_lambda h * max age1 0 \<le> decay_lambda h * max age2 0"
      using pos by simp
    then have "- decay_lambda h * max age2 0 \<le> - decay_lambda h * max age1 0" by simp
    then show ?thesis unfolding time_decay_weight_def by (rule math_exp_mono)
  qed
  have "0 \<le> decay_lambda h * max age1 0" using pos by simp
  then have "- decay_lambda h * max age1 0 \<le> 0" by simp
  then have range: "0 \<le> time_decay_weight h age1 \<and> time_decay_weight h age1 \<le> 1"
    unfolding time_decay_weight_def by (rule math_exp_range)
  have one: "time_decay_weight h age1 = 1" if "age1 \<le> 0"
    using that by (simp add: time_decay_weight_def math_exp_def max_def)
  have form: "time_decay_weight h age1 = math_exp (- (ln 2 / max h (1 / 10)) * max age1 0)"
    by (simp add: time_decay_weight_def decay_lambda_def)
  have plain: "time_decay_weight h age1 = math_exp (- ln 2 / h * age1)"
    if "1 / 10 \<le> h" "0 \<le> age1"
  proof -
    from that have "max h (1 / 10) = h" "max age1 0 = age1" by (simp_all add: max_def)
    then show ?thesis by (simp add: time_decay_weight_def decay_lambda_def)
  qed
  from mono range one form plain show ?thesis by blast
qed

theorem C6_decay_monotone_witness:
  "time_decay_weight 6 3 \<le> time_decay_weight 6 0
   \<and> time_decay_weight 6 0 = 1
   \<and> time_decay_weight 6 0 = math_exp (- ln 2 / 6 * 0)"
  using C6_decay_monotone [of 0 3 6] C6_decay_monotone [of 0 0 6] by simp

subsection \<open>Action thresholds\<close>

lemma generate_members:
  "r \<in> set (generate h stories tech) \<Longrightarrow>
     \<exists>ticker td. (ticker, td) \<in> set (aggregate h stories) \<and> \<not> weight_sum td < 1 / 100
        \<and> r = make_rec ticker td (tech ticker)"
  by (auto simp: generate_def recommendations_def)

lemma action_make_rec:
  "action (make_rec ticker td ta) = choose_action (agg_score td ta) (combined_confidence td ta)"
  by (simp add: make_rec_def)

lemma choose_action_BUY:
  "choose_action s c = BUY \<longleftrightarrow> s > 15 / 100 \<and> c \<ge> 3 / 10"
  by (simp add: choose_action_def BUY_THRESHOLD_def SELL_THRESHOLD_def MIN_CONFIDENCE_def)

lemma choose_action_SELL:
  "choose_action s c = SELL \<longleftrightarrow> s < - (15 / 100) \<and> c \<ge> 3 / 10"
  by (auto simp: choose_action_def BUY_THRESHOLD_def SELL_THRESHOLD_def MIN_CONFIDENCE_def)

lemma choose_action_HOLD:
  "choose_action s c = HOLD \<longleftrightarrow>
     \<not> (s > 15 / 100 \<and> c \<ge> 3 / 10) \<and> \<not> (s < - (15 / 100) \<and> c \<ge> 3 / 10)"
  by (auto simp: choose_action_def BUY_THRESHOLD_def SELL_THRESHOLD_def MIN_CONFIDENCE_def)

text \<open>
  C5: every recommendation returned by \<open>generate\<close> comes from one aggregated ticker, and
  its action is BUY exactly when the blended score is above 0.15 and the blended
  confidence is at least 0.3, SELL exactly when the score is below -0.15 and the
  confidence is at least 0.3, and HOLD otherwise; a blended score of exactly 0.15 or
  exactly -0.15 gives HOLD whatever the confidence.
\<close>

theorem C5_action_thresholds:
  assumes "r \<in> set (generate h stories tech)"
  shows "\<exists>ticker td. (ticker, td) \<in> set (aggregate h stories) \<and> \<not> weight_sum td < 1 / 100
           \<and> r = make_rec ticker td (tech ticker)
           \<and> (action r = BUY \<longleftrightarrow>
                agg_score td (tech ticker) > 15 / 100
                \<and> combined_confidence td (tech ticker) \<ge> 3 / 10)
           \<and> (action r = SELL \<longleftrightarrow>
                agg_score td (tech ticker) < - (15 / 100)
                \<and> combined_confidence td (tech ticker) \<ge> 3 / 10)
           \<and> (action r = HOLD \<longleftrightarrow>
                \<not> (agg_score td (tech ticker) > 15 / 100
                   \<and> combined_confidence td (tech ticker) \<ge> 3 / 10)
                \<and> \<not> (agg_score td (tech ticker) < - (15 / 100)
                   \<and> combined_confidence td (tech ticker) \<ge> 3 / 10))
           \<and> (agg_score td (tech ticker) = 15 / 100 \<or> agg_score td (tech ticker) = - (15 / 100)
                \<longrightarrow> action r = HOLD)"
proof -
  from generate_members [OF assms] obtain ticker td where
    m: "(ticker, td) \<in> set (aggregate h stories)" and w: "\<not> weight_sum td < 1 / 100"
    and r: "r = make_rec ticker td (tech ticker)" by blast
  have a: "action r
      = choose_action (agg_score td (tech ticker)) (combined_confidence td (tech ticker))"
    by (simp add: r action_make_rec)
  have b: "action r = BUY \<longleftrightarrow>
      agg_score td (tech ticker) > 15 / 100 \<and> combined_confidence td (tech ticker) \<ge> 3 / 10"
    unfolding a by (rule choose_action_BUY)
  have s: "action r = SELL \<longleftrightarrow>
      agg_score td (tech ticker) < - (15 / 100) \<and> combined_confidence td (tech ticker) \<ge> 3 / 10"
    unfolding a by (rule choose_action_SELL)
  have hd: "action r = HOLD \<longleftrightarrow>
      \<not> (agg_score td (tech ticker) > 15 / 100 \<and> combined_confidence td (tech ticker) \<ge> 3 / 10)
      \<and> \<not> (agg_score td (tech ticker) < - (15 / 100)
            \<and> combined_confidence td (tech ticker) \<ge> 3 / 10)"
    unfolding a by (rule choose_action_HOLD)
  have e: "agg_score td (tech ticker) = 15 / 100 \<or> agg_score td (tech ticker) = - (15 / 100)
      \<longrightarrow> action r = HOLD"
    unfolding hd by auto
  from m w r b s hd e show ?thesis by blast
qed

lemma aggregate_boundary:
  "aggregate 6 [boundary_story] =
     [(''NVDA'', \<lparr>weighted_score_sum = 15 / 100, weight_sum = 1, confidence_sum = 1,
                  story_count = 1, reasons = [''NVDA holds steady'']\<rparr>)]"
  by (simp add: aggregate_def add_story_def accumulate_def boundary_story_def
      time_decay_weight_def math_exp_def empty_ticker_data_def)

lemma generate_boundary:
  "generate 6 [boundary_story] Map.empty =
     [make_rec ''NVDA'' \<lparr>weighted_score_sum = 15 / 100, weight_sum = 1, confidence_sum = 1,
                  story_count = 1, reasons = [''NVDA holds steady'']\<rparr> None]"
  by (simp add: generate_def recommendations_def aggregate_boundary)

theorem C5_action_thresholds_witness:
  "map action (generate 6 [boundary_story] Map.empty) = [HOLD]
   \<and> map (\<lambda>(t, td). (t, agg_score td None, combined_confidence td None))
        (aggregate 6 [boundary_story]) = [(''NVDA'', 15 / 100, 1 / 3)]"
proof -
  let ?td = "\<lparr>weighted_score_sum = 15 / 100, weight_sum = 1, confidence_sum = 1,
                  story_count = 1, reasons = [''NVDA holds steady'']\<rparr>"
  let ?r = "make_rec ''NVDA'' ?td None"
  have mem: "?r \<in> set (generate 6 [boundary_story] Map.empty)"
    by (simp add: generate_boundary)
  from C5_action_thresholds [OF mem] obtain ticker td where
    m: "(ticker, td) \<in> set (aggregate 6 [boundary_story])"
    and e: "agg_score td (Map.empty ticker) = 15 / 100
              \<or> agg_score td (Map.empty ticker) = - (15 / 100) \<longrightarrow> action ?r = HOLD"
    by blast
  from m have td: "td = ?td" by (simp add: aggregate_boundary)
  have sc: "agg_score ?td None = 15 / 100"
    by (simp add: agg_score_def sentiment_agg_def)
  have cf: "combined_confidence ?td None = 1 / 3"
    by (simp add: combined_confidence_def td_sentiment_confidence_def)
  from e td sc have "action ?r = HOLD" by simp
  with sc cf show ?thesis by (simp add: generate_boundary aggregate_boundary)
qed

subsection \<open>Output order\<close>

lemma rec_key_le:
  "rec_key a \<le> rec_key b \<longleftrightarrow>
     action_order (action a) < action_order (action b)
     \<or> action_order (action a) = action_order (action b) \<and> confidence b \<le> confidence a"
  by (auto simp: rec_key_def less_eq_prod_def)

lemma action_order_HOLD: "action_order a \<ge> 2 \<longleftrightarrow> a = HOLD"
  by (cases a) (simp_all add: action_order_def)

lemma generate_sorted: "sorted (map rec_key (generate h stories tech))"
  by (simp add: generate_def)

text \<open>
  C9: in the list returned by \<open>generate\<close> no HOLD recommendation stands before a BUY or
  SELL one, two recommendations with the same action stand in non-increasing order of
  confidence, recommendations with equal sort keys keep the order in which they were
  produced, and the list is a rearrangement of the recommendations produced.
\<close>

theorem C9_output_order:
  "(\<forall>i j. i < j \<and> j < length (generate h stories tech) \<longrightarrow>
       (action (generate h stories tech ! i) = HOLD \<longrightarrow> action (generate h stories tech ! j) = HOLD)
     \<and> (action (generate h stories tech ! i) = action (generate h stories tech ! j) \<longrightarrow>
          confidence (generate h stories tech ! j) \<le> confidence (generate h stories tech ! i)))
   \<and> (\<forall>k. filter (\<lambda>r. rec_key r = k) (generate h stories tech)
          = filter (\<lambda>r. rec_key r = k) (recommendations (aggregate h stories) tech))
   \<and> set (generate h stories tech) = set (recommendations (aggregate h stories) tech)
   \<and> length (generate h stories tech) = length (recommendations (aggregate h stories) tech)"
proof -
  let ?out = "generate h stories tech"
  have ord: "rec_key (?out ! i) \<le> rec_key (?out ! j)" if "i < j" "j < length ?out" for i j
  proof -
    have "map rec_key ?out ! i \<le> map rec_key ?out ! j"
      using generate_sorted [of h stories tech] that
      by (intro sorted_nth_mono) simp_all
    then show ?thesis using that by simp
  qed
  have hold: "action (?out ! j) = HOLD"
    if "i < j" "j < length ?out" "action (?out ! i) = HOLD" for i j
  proof -
    from ord [OF that(1,2)]
    have "action_order (action (?out ! i)) \<le> action_order (action (?out ! j))"
      by (auto simp: rec_key_le)
    with that(3) have "2 \<le> action_order (action (?out ! j))" by (simp add: action_order_def)
    then show ?thesis by (simp add: action_order_HOLD)
  qed
  have conf: "confidence (?out ! j) \<le> confidence (?out ! i)"
    if "i < j" "j < length ?out" "action (?out ! i) = action (?out ! j)" for i j
    using ord [OF that(1,2)] that(3) by (simp add: rec_key_le)
  have stable: "filter (\<lambda>r. rec_key r = k) ?out
          = filter (\<lambda>r. rec_key r = k) (recommendations (aggregate h stories) tech)" for k
    by (simp add: generate_def sort_key_stable)
  have perm: "set ?out = set (recommendations (aggregate h stories) tech)"
     "length ?out = length (recommendations (aggregate h stories) tech)"
    by (simp_all add: generate_def)
  from hold conf stable perm show ?thesis by blast
qed

lemma generate_order_stories:
  "map (\<lambda>r. (symbol r, action r, confidence r)) (generate 6 order_stories Map.empty) =
     [(''BB'', BUY, 333 / 1000), (''AA'', BUY, 3 / 10), (''CC'', HOLD, 333 / 1000)]"
  by (simp add: generate_def recommendations_def make_rec_def aggregate_def add_story_def
      accumulate_def order_stories_def time_decay_weight_def math_exp_def empty_ticker_data_def
      choose_action_def agg_score_def combined_confidence_def sentiment_agg_def
      td_sentiment_confidence_def rec_key_def action_order_def py_round_def round_half_even_def
      BUY_THRESHOLD_def SELL_THRESHOLD_def MIN_CONFIDENCE_def)

theorem C9_output_order_witness:
  "confidence (generate 6 order_stories Map.empty ! 1)
     \<le> confidence (generate 6 order_stories Map.empty ! 0)
   \<and> map symbol (generate 6 order_stories Map.empty) = [''BB'', ''AA'', ''CC'']
   \<and> map action (generate 6 order_stories Map.empty) = [BUY, BUY, HOLD]"
proof -
  let ?out = "generate 6 order_stories Map.empty"
  have ev: "map (\<lambda>r. (symbol r, action r, confidence r)) ?out =
     [(''BB'', BUY, 333 / 1000), (''AA'', BUY, 3 / 10), (''CC'', HOLD, 333 / 1000)]"
    by (rule generate_order_stories)
  from arg_cong [OF ev, of length] have len: "length ?out = 3" by simp
  from arg_cong [OF ev, of "map (fst \<circ> snd)"]
  have acts: "map action ?out = [BUY, BUY, HOLD]" by (simp add: comp_def)
  from arg_cong [OF ev, of "map fst"]
  have syms: "map symbol ?out = [''BB'', ''AA'', ''CC'']" by (simp add: comp_def)
  from arg_cong [OF acts, of "\<lambda>xs. xs ! 0"] len have a0: "action (?out ! 0) = BUY" by simp
  from arg_cong [OF acts, of "\<lambda>xs. xs ! 1"] len have a1: "action (?out ! 1) = BUY" by simp
  from C9_output_order [of 6 order_stories Map.empty]
  have "0 < (1::nat) \<and> 1 < length ?out \<longrightarrow>
          (action (?out ! 0) = action (?out ! 1) \<longrightarrow> confidence (?out ! 1) \<le> confidence (?out ! 0))"
    by blast
  with len a0 a1 have "confidence (?out ! 1) \<le> confidence (?out ! 0)" by simp
  with syms acts show ?thesis by simp
qed

subsection \<open>Evaluating the sentiment analyzer\<close>

lemmas str_eval = list.inject list.distinct char.inject simp_thms if_True if_False

lemma map_of_single_word:
  "map_of (single_word L) k = (if is_phrase k then None else map_of L k)"
  by (induction L) (auto simp: single_word_def)

lemma is_phrase_Nil: "is_phrase [] = False"
  by (simp add: is_phrase_def)

lemma is_phrase_Cons: "is_phrase (c # cs) = (c = CHR '' '' \<or> c = CHR ''-'' \<or> is_phrase cs)"
  by (auto simp: is_phrase_def)

lemma multi_word_Nil: "multi_word [] = []"
  by (simp add: multi_word_def)

lemma multi_word_Cons:
  "multi_word ((k, v) # l) = (if is_phrase k then [(k, v)] else []) @ multi_word l"
  by (simp add: multi_word_def)

lemma multi_word_FINANCIAL_LEXICON:
  "multi_word FINANCIAL_LEXICON =
     [(''all-time high'', 85 / 100), (''revenue growth'', 7 / 10), (''earnings beat'', 75 / 100),
      (''sell-off'', - (7 / 10)), (''bear market'', - (8 / 10)), (''laid off'', - (6 / 10)),
      (''rate hike'', - (45 / 100)), (''rate cut'', 5 / 10), (''rate increase'', - (4 / 10))]"
  unfolding FINANCIAL_LEXICON_def
  by (simp only: multi_word_Nil multi_word_Cons is_phrase_Nil is_phrase_Cons str_eval
      append_Cons append_Nil)

lemma lex_bankrupt: "map_of FINANCIAL_LEXICON ''bankrupt'' = Some (- (95 / 100))"
  unfolding FINANCIAL_LEXICON_def by (simp only: map_of_Cons_code str_eval)



lemma single_bankrupt: "map_of (single_word FINANCIAL_LEXICON) ''bankrupt'' = Some (- (95 / 100))"
  by (simp add: map_of_single_word is_phrase_def lex_bankrupt)

lemma intensifier_extremely: "map_of INTENSIFIERS ''extremely'' = Some (15 / 10)"
  by (simp add: INTENSIFIERS_def)

lemma tokens_extremely_bankrupt:
  "tokenize (lower ''extremely bankrupt'') = [''extremely'', ''bankrupt'']"
  by (simp add: lower_def lower_char_def is_lower_def)

lemma phrase_scores_extremely_bankrupt:
  "phrase_scores (multi_word FINANCIAL_LEXICON) (lower ''extremely bankrupt'') = []"
  by (simp add: multi_word_FINANCIAL_LEXICON phrase_scores_def count_sub_def
      lower_def lower_char_def)

lemma token_scores_extremely_bankrupt:
  "token_scores (map_of (single_word FINANCIAL_LEXICON)) [''extremely'', ''bankrupt'']
     = [- (1425 / 1000)]"
  by (simp add: single_bankrupt intensifier_extremely)

lemma scores_extremely_bankrupt:
  "all_scores FINANCIAL_LEXICON ''extremely bankrupt'' = [- (1425 / 1000)]"
  by (simp only: all_scores_def tokens_extremely_bankrupt token_scores_extremely_bankrupt
      phrase_scores_extremely_bankrupt append_Nil)









subsection \<open>Range of the sentiment result\<close>

lemma round_half_even_cases:
  "round_half_even y = \<lfloor>y\<rfloor> \<or> (round_half_even y = \<lfloor>y\<rfloor> + 1 \<and> 1 / 2 \<le> y - of_int \<lfloor>y\<rfloor>)"
  by (auto simp: round_half_even_def Let_def)

lemma round_half_even_ge:
  assumes "of_int m \<le> y"
  shows "m \<le> round_half_even y"
proof -
  from assms have "m \<le> \<lfloor>y\<rfloor>" by (simp add: le_floor_iff)
  with round_half_even_cases [of y] show ?thesis by auto
qed

lemma round_half_even_le:
  assumes "y \<le> of_int m"
  shows "round_half_even y \<le> m"
proof -
  from assms have fl: "\<lfloor>y\<rfloor> \<le> m" by (simp add: floor_le_iff)
  from round_half_even_cases [of y] show ?thesis
  proof
    assume "round_half_even y = \<lfloor>y\<rfloor>"
    with fl show ?thesis by simp
  next
    assume up: "round_half_even y = \<lfloor>y\<rfloor> + 1 \<and> 1 / 2 \<le> y - of_int \<lfloor>y\<rfloor>"
    then have "of_int \<lfloor>y\<rfloor> < y" by simp
    with assms have "(of_int \<lfloor>y\<rfloor> :: real) < of_int m" by simp
    then have "\<lfloor>y\<rfloor> < m" by simp
    with up show ?thesis by simp
  qed
qed

lemma py_round_3_range:
  assumes "1 / 10 \<le> x" "x \<le> 1"
  shows "1 / 10 \<le> py_round x 3 \<and> py_round x 3 \<le> 1"
proof -
  have "of_int 100 \<le> x * 10 ^ 3" using assms(1) by simp
  then have lo: "100 \<le> round_half_even (x * 10 ^ 3)" by (rule round_half_even_ge)
  have "x * 10 ^ 3 \<le> of_int 1000" using assms(2) by simp
  then have hi: "round_half_even (x * 10 ^ 3) \<le> 1000" by (rule round_half_even_le)
  from lo have "(100 :: real) \<le> of_int (round_half_even (x * 10 ^ 3))" by linarith
  moreover from hi have "of_int (round_half_even (x * 10 ^ 3)) \<le> (1000 :: real)" by linarith
  ultimately show ?thesis by (simp add: py_round_def)
qed

lemma analyze_confidence_range:
  "1 / 10 \<le> sr_confidence (analyze L t) \<and> sr_confidence (analyze L t) \<le> 1"
proof (cases "all_scores L t = []")
  case True
  then show ?thesis by (simp add: analyze_def)
next
  case False
  then have "\<exists>conf. sr_confidence (analyze L t) = py_round (max (1 / 10) (min 1 conf)) 3"
    unfolding analyze_def Let_def
    by (simp only: if_False sentiment_result.select_convs) blast
  then obtain conf where
    c: "sr_confidence (analyze L t) = py_round (max (1 / 10) (min 1 conf)) 3" ..
  have "1 / 10 \<le> max (1 / 10) (min 1 conf)" "max (1 / 10) (min 1 conf) \<le> 1"
    by simp_all
  then show ?thesis unfolding c by (rule py_round_3_range)
qed

text \<open>
  C1, at the input \<open>extremely bankrupt\<close>: the intensifier 1.5 scales the lexicon score
  -0.95 of \<open>bankrupt\<close> to -1.425, the only contribution, and the score returned is
  -1.425, outside [-1, 1]. The confidence is within [0.1, 1] for every lexicon and text.
\<close>

theorem C1_score_out_of_range:
  "analyze FINANCIAL_LEXICON ''extremely bankrupt'' =
     \<lparr>sentiment = Negative, score = - (1425 / 1000), sr_confidence = 68 / 100, word_hits = 1\<rparr>
   \<and> score (analyze FINANCIAL_LEXICON ''extremely bankrupt'') < - 1
   \<and> 1 / 10 \<le> sr_confidence (analyze L t) \<and> sr_confidence (analyze L t) \<le> 1"
proof -
  have ev: "analyze FINANCIAL_LEXICON ''extremely bankrupt'' =
     \<lparr>sentiment = Negative, score = - (1425 / 1000), sr_confidence = 68 / 100, word_hits = 1\<rparr>"
    by (simp add: analyze_def scores_extremely_bankrupt py_round_def round_half_even_def)
  have "score (analyze FINANCIAL_LEXICON ''extremely bankrupt'') < - 1"
    unfolding ev by simp
  with ev analyze_confidence_range [of L t] show ?thesis by simp
qed

subsection \<open>Contributions to the score list\<close>















subsection \<open>Pseudo hit counts of the dynamic resolver pass\<close>

lemma map_of_dict_set: "map_of (dict_set d k v) = (map_of d)(k \<mapsto> v)"
  by (induction d k v rule: dict_set.induct) auto

lemma map_of_dynamic_hit:
  "map_of (dynamic_hit hits (t, r)) x =
     (case map_of hits x of
        Some h \<Rightarrow> Some h
      | None \<Rightarrow> if x = t then Some (max 1 (py_int (r * 3))) else None)"
  by (auto simp: dynamic_hit_def map_of_dict_set split: option.splits)

lemma map_of_merge_dynamic:
  "map_of (merge_dynamic hits dyn) x =
     (case map_of hits x of
        Some h \<Rightarrow> Some h
      | None \<Rightarrow> map_option (\<lambda>r. max 1 (py_int (r * 3))) (map_of dyn x))"
  unfolding merge_dynamic_def
proof (induction dyn arbitrary: hits)
  case Nil
  then show ?case by (simp split: option.splits)
next
  case (Cons tr dyn)
  obtain t r where tr: "tr = (t, r)" by (cases tr)
  show ?case
    by (simp add: Cons.IH tr map_of_dynamic_hit split: option.splits)
qed

lemma uber_not_common: "''UBER'' \<notin> set COMMON_UPPER_WORDS"
  unfolding COMMON_UPPER_WORDS_def
  by (simp only: list.set insert_iff empty_iff str_eval)

lemma candidates_uber: "candidates ''UBER'' = [(''UBER'', 9 / 10)]"
  by (simp add: candidates_def is_upper_def is_lower_def is_letter_def is_word_char_def
      uber_not_common)

lemma resolve_uber:
  "resolve uber_env world0 ''UBER'' =
     (Some ''UBER'',
      \<lparr>ticks = 1, resolver_cache = [''uber'' \<mapsto> (Some ''UBER'', 0)],
       price_cache = Map.empty, ta_cache = Map.empty, calls = [Search ''UBER'']\<rparr>)"
  by (simp add: resolve_def read_clock_def world0_def uber_env_def lookup_def
      VALID_EXCHANGES_def strip_def lower_def lower_char_def is_space_def Let_def)

lemma extract_uber:
  "fst (extract_and_resolve uber_env world0 ''UBER'') = [(''UBER'', 9 / 10)]"
  by (simp add: extract_and_resolve_def candidates_uber resolve_uber)

lemma static_hits_uber:
  "symbol_hits [''NVDA''] ''UBER'' (alias_hits [(''nvidia'', ''NVDA'')] [''NVDA''] (lower ''UBER''))
     = []"
  by (simp add: symbol_hits_def alias_hits_def symbol_matches_def AMBIGUOUS_TICKERS_def
      count_sub_def lower_def lower_char_def is_letter_def is_lower_def is_upper_def)

text \<open>
  C3, as stated: the pseudo hit count is \<open>max(1, round(relevance * 3))\<close>. For the text
  \<open>UBER\<close>, resolved by the symbol search with relevance 0.9, the count is 2, and the
  rounded value \<open>round(2.7)\<close> is 3.
\<close>

theorem C3_round_counterexample:
  "map_of (fst (extract_and_resolve uber_env world0 ''UBER'')) ''UBER'' = Some (9 / 10)
   \<and> map_of (merge_dynamic
        (symbol_hits [''NVDA''] ''UBER''
           (alias_hits [(''nvidia'', ''NVDA'')] [''NVDA''] (lower ''UBER'')))
        (fst (extract_and_resolve uber_env world0 ''UBER''))) ''UBER''
      \<noteq> Some (max 1 (round_half_even (9 / 10 * 3)))"
  by (simp add: extract_uber static_hits_uber merge_dynamic_def dynamic_hit_def py_int_def
      round_half_even_def)

text \<open>
  C3, amended: for every ticker returned by the dynamic resolver pass that alias and
  symbol matching have not hit, the pseudo hit count is \<open>max(1, int(relevance * 3))\<close>,
  where \<open>int\<close> truncates (the floor, for a relevance that is not negative); the
  relevances of \<open>detect\<close> are computed from these counts.
\<close>

theorem C3_dynamic_hit_count:
  assumes "extract_and_resolve e w text = (dynamic_hits, w')"
    and "map_of dynamic_hits ticker = Some relevance"
    and "map_of (symbol_hits tradeable text (alias_hits aliases tradeable (lower text))) ticker
           = None"
  shows "map_of (merge_dynamic
                   (symbol_hits tradeable text (alias_hits aliases tradeable (lower text)))
                   dynamic_hits) ticker
           = Some (max 1 (py_int (relevance * 3)))
         \<and> (0 \<le> relevance \<longrightarrow> py_int (relevance * 3) = \<lfloor>relevance * 3\<rfloor>)
         \<and> detect aliases tradeable e w text
             = (relevances (merge_dynamic
                   (symbol_hits tradeable text (alias_hits aliases tradeable (lower text)))
                   dynamic_hits), w')"
proof -
  have a: "map_of (merge_dynamic
                   (symbol_hits tradeable text (alias_hits aliases tradeable (lower text)))
                   dynamic_hits) ticker
           = Some (max 1 (py_int (relevance * 3)))"
    by (simp add: map_of_merge_dynamic assms(2,3))
  have b: "0 \<le> relevance \<longrightarrow> py_int (relevance * 3) = \<lfloor>relevance * 3\<rfloor>"
    by (simp add: py_int_def)
  have c: "detect aliases tradeable e w text
             = (relevances (merge_dynamic
                   (symbol_hits tradeable text (alias_hits aliases tradeable (lower text)))
                   dynamic_hits), w')"
    by (simp add: detect_def assms(1))
  from a b c show ?thesis by blast
qed

theorem C3_dynamic_hit_count_witness:
  "map_of (merge_dynamic
        (symbol_hits [''NVDA''] ''UBER''
           (alias_hits [(''nvidia'', ''NVDA'')] [''NVDA''] (lower ''UBER'')))
        (fst (extract_and_resolve uber_env world0 ''UBER''))) ''UBER'' = Some 2"
proof -
  obtain dyn w' where ex: "extract_and_resolve uber_env world0 ''UBER'' = (dyn, w')"
    by (cases "extract_and_resolve uber_env world0 ''UBER''")
  with extract_uber have dyn: "dyn = [(''UBER'', 9 / 10)]" by simp
  have rel: "map_of dyn ''UBER'' = Some (9 / 10)" by (simp add: dyn)
  have none: "map_of (symbol_hits [''NVDA''] ''UBER''
      (alias_hits [(''nvidia'', ''NVDA'')] [''NVDA''] (lower ''UBER''))) ''UBER'' = None"
    by (simp add: static_hits_uber)
  from C3_dynamic_hit_count [OF ex rel none]
  have "map_of (merge_dynamic
        (symbol_hits [''NVDA''] ''UBER''
           (alias_hits [(''nvidia'', ''NVDA'')] [''NVDA''] (lower ''UBER''))) dyn) ''UBER''
      = Some (max 1 (py_int (9 / 10 * 3)))"
    by blast
  then show ?thesis by (simp add: ex py_int_def)
qed

subsection \<open>When the technical analysis succeeds\<close>

lemma compute_rsi_None: "compute_rsi closes = None \<longleftrightarrow> length closes < 15"
  by (simp add: compute_rsi_def Let_def)

lemma compute_ma_signals_None: "compute_ma_signals closes = None \<longleftrightarrow> length closes < 20"
  by (simp add: compute_ma_signals_def Let_def)

lemma compute_macd_None: "compute_macd closes = None \<longleftrightarrow> length closes < 26"
  by (simp add: compute_macd_def Let_def)

lemma compute_success_iff:
  "ta_success (compute e now s) \<longleftrightarrow> (\<exists>hist. history e now s = Some hist \<and> 26 \<le> length hist)"
proof (cases "history e now s")
  case None
  then show ?thesis by (simp add: compute_def ta_success_def)
next
  case (Some hist)
  show ?thesis
  proof (cases "26 \<le> length hist")
    case True
    then have "compute_rsi (map bar_close hist) \<noteq> None"
      "compute_ma_signals (map bar_close hist) \<noteq> None"
      "compute_macd (map bar_close hist) \<noteq> None"
      by (simp_all add: compute_rsi_None compute_ma_signals_None compute_macd_None)
    then obtain r ma m where "compute_rsi (map bar_close hist) = Some r"
      "compute_ma_signals (map bar_close hist) = Some ma"
      "compute_macd (map bar_close hist) = Some m"
      by auto
    with Some True show ?thesis by (simp add: compute_def ta_success_def)
  next
    case False
    then have "compute_macd (map bar_close hist) = None"
      by (simp add: compute_macd_None)
    with Some False show ?thesis
      by (simp add: compute_def ta_success_def Let_def split: option.splits)
  qed
qed

lemma compute_fail_iff:
  "compute e now s = TA_Fail s \<longleftrightarrow> \<not> ta_success (compute e now s)"
  by (auto simp: compute_def ta_success_def Let_def split: option.splits)

lemma ta_analyze_miss:
  assumes "\<forall>c t0. ta_cache w s = Some (c, t0) \<longrightarrow> \<not> clock e (ticks w) - t0 < TA_CACHE_TTL"
  shows "fst (ta_analyze e w s) = compute e (clock e (ticks w)) s"
  using assms by (auto simp: ta_analyze_def read_clock_def Let_def split: option.splits)

text \<open>
  C2, as stated: a history of at least 20 daily bars gives a successful snapshot. With
  20 bars the MACD, which needs 26, is undefined, and the analysis fails.
\<close>

theorem C2_twenty_bars_counterexample:
  "history (bars_env 20) 0 ''NVDA'' = Some (replicate 20 flat_bar)
   \<and> length (replicate 20 flat_bar) = 20
   \<and> compute (bars_env 20) 0 ''NVDA'' = TA_Fail ''NVDA''
   \<and> fst (ta_analyze (bars_env 20) world0 ''NVDA'') = TA_Fail ''NVDA''"
  by (simp add: bars_env_def compute_def compute_macd_def compute_rsi_def
      compute_ma_signals_def Let_def ta_analyze_def read_clock_def world0_def)

text \<open>
  C2, amended: the computation succeeds exactly when the history fetch succeeds with at
  least 26 daily bars, and returns the failure exactly when the fetch fails or the
  history has fewer than 26 bars; \<open>analyze\<close> returns the result of this computation
  whenever the cache holds no fresh entry for the ticker.
\<close>

theorem C2_success_from_26_bars:
  "(ta_success (compute e now s) \<longleftrightarrow>
      (\<exists>hist. history e now s = Some hist \<and> 26 \<le> length hist))
   \<and> (compute e now s = TA_Fail s \<longleftrightarrow>
      history e now s = None \<or> (\<exists>hist. history e now s = Some hist \<and> length hist < 26))
   \<and> ((\<forall>c t0. ta_cache w s = Some (c, t0) \<longrightarrow> \<not> clock e (ticks w) - t0 < TA_CACHE_TTL)
        \<longrightarrow> fst (ta_analyze e w s) = compute e (clock e (ticks w)) s)"
proof -
  have a: "ta_success (compute e now s) \<longleftrightarrow>
      (\<exists>hist. history e now s = Some hist \<and> 26 \<le> length hist)"
    by (rule compute_success_iff)
  have b: "compute e now s = TA_Fail s \<longleftrightarrow>
      history e now s = None \<or> (\<exists>hist. history e now s = Some hist \<and> length hist < 26)"
    unfolding compute_fail_iff a by (cases "history e now s") auto
  from a b ta_analyze_miss [of w s e] show ?thesis by blast
qed

theorem C2_success_from_26_bars_witness:
  "ta_success (compute (bars_env 26) 0 ''NVDA'')
   \<and> ta_success (fst (ta_analyze (bars_env 26) world0 ''NVDA''))"
proof -
  have h: "history (bars_env 26) 0 ''NVDA'' = Some (replicate 26 flat_bar)"
    by (simp add: bars_env_def)
  have c: "clock (bars_env 26) (ticks world0) = 0"
    by (simp add: bars_env_def)
  have miss: "\<forall>c t0. ta_cache world0 ''NVDA'' = Some (c, t0)
      \<longrightarrow> \<not> clock (bars_env 26) (ticks world0) - t0 < TA_CACHE_TTL"
    by (simp add: world0_def)
  from C2_success_from_26_bars [of "bars_env 26" 0 "''NVDA''" world0] h
  have s: "ta_success (compute (bars_env 26) 0 ''NVDA'')" by simp
  from C2_success_from_26_bars [of "bars_env 26" 0 "''NVDA''" world0] miss c
  have "fst (ta_analyze (bars_env 26) world0 ''NVDA'') = compute (bars_env 26) 0 ''NVDA''"
    by simp
  with s show ?thesis by simp
qed

subsection \<open>The caches\<close>








subsection \<open>The price filter\<close>

lemma gpi_ticks: "ticks (snd (get_price_info e w s)) = ticks w + 1"
  by (auto simp: get_price_info_def read_clock_def Let_def split: sum.splits option.splits)

lemma gpi_cache_other:
  "s' \<noteq> s \<Longrightarrow> price_cache (snd (get_price_info e w s)) s' = price_cache w s'"
  by (auto simp: get_price_info_def read_clock_def Let_def split: sum.splits option.splits)

lemma gpi_fst_cong:
  "ticks w1 = ticks w2 \<Longrightarrow> price_cache w1 s = price_cache w2 s
     \<Longrightarrow> fst (get_price_info e w1 s) = fst (get_price_info e w2 s)"
  by (auto simp: get_price_info_def read_clock_def Let_def split: sum.splits option.splits)

lemma passes_cong:
  "ticks w1 = ticks w2 \<Longrightarrow> price_cache w1 s = price_cache w2 s
     \<Longrightarrow> passes e mp w1 s = passes e mp w2 s"
  by (simp add: passes_def gpi_fst_cong [of w1 w2 s e])

lemma gpi_symbol: "fst (get_price_info e w s) = PriceOk s' p ex \<Longrightarrow> s' = s"
  by (auto simp: get_price_info_def read_clock_def Let_def split: sum.splits option.splits if_splits)

lemma passes_Some:
  "passes e mp w s = Some p \<longleftrightarrow> (\<exists>ex. fst (get_price_info e w s) = PriceOk s p ex) \<and> mp \<le> p"
proof (cases "fst (get_price_info e w s)")
  case (PriceOk s' p' ex)
  with gpi_symbol [OF PriceOk] show ?thesis by (auto simp: passes_def)
next
  case (PriceFail s' msg)
  then show ?thesis by (simp add: passes_def)
qed

lemma filter_loop_Cons:
  "filter_loop e mp w (s # rest) valid =
     filter_loop e mp (snd (get_price_info e w s)) rest
       (case passes e mp w s of Some p \<Rightarrow> dict_set valid s p | None \<Rightarrow> valid)"
proof (cases "get_price_info e w s")
  case (Pair r w1)
  then show ?thesis by (cases r) (simp_all add: passes_def)
qed

lemma filter_loop_spec:
  assumes "distinct symbols"
  shows "(\<forall>i<length symbols.
            map_of (fst (filter_loop e mp w symbols valid0)) (symbols ! i)
              = (case passes e mp (w\<lparr>ticks := ticks w + i\<rparr>) (symbols ! i) of
                   Some p \<Rightarrow> Some p | None \<Rightarrow> map_of valid0 (symbols ! i)))
         \<and> (\<forall>x. x \<notin> set symbols \<longrightarrow>
              map_of (fst (filter_loop e mp w symbols valid0)) x = map_of valid0 x)"
  using assms
proof (induction symbols arbitrary: w valid0)
  case Nil
  then show ?case by simp
next
  case (Cons s rest)
  let ?w1 = "snd (get_price_info e w s)"
  let ?v1 = "case passes e mp w s of Some p \<Rightarrow> dict_set valid0 s p | None \<Rightarrow> valid0"
  let ?out = "fst (filter_loop e mp w (s # rest) valid0)"
  have out: "?out = fst (filter_loop e mp ?w1 rest ?v1)"
    by (simp only: filter_loop_Cons)
  from Cons.prems have d: "distinct rest" and ns: "s \<notin> set rest" by simp_all
  note IH = Cons.IH [OF d, of ?w1 ?v1]
  have v1_other: "map_of ?v1 x = map_of valid0 x" if "x \<noteq> s" for x
    using that by (simp add: map_of_dict_set split: option.splits)
  have v1_s: "map_of ?v1 s = (case passes e mp w s of Some p \<Rightarrow> Some p | None \<Rightarrow> map_of valid0 s)"
    by (simp add: map_of_dict_set split: option.splits)
  have outside: "map_of ?out x = map_of valid0 x" if "x \<notin> set (s # rest)" for x
  proof -
    from that have "x \<notin> set rest" "x \<noteq> s" by simp_all
    with IH have "map_of (fst (filter_loop e mp ?w1 rest ?v1)) x = map_of ?v1 x" by blast
    with v1_other [OF \<open>x \<noteq> s\<close>] show ?thesis by (simp only: out)
  qed
  have inside: "map_of ?out ((s # rest) ! i)
      = (case passes e mp (w\<lparr>ticks := ticks w + i\<rparr>) ((s # rest) ! i) of
           Some p \<Rightarrow> Some p | None \<Rightarrow> map_of valid0 ((s # rest) ! i))"
    if "i < length (s # rest)" for i
  proof (cases i)
    case 0
    from IH ns have "map_of (fst (filter_loop e mp ?w1 rest ?v1)) s = map_of ?v1 s" by blast
    then have "map_of ?out s = map_of ?v1 s" by (simp only: out)
    then have "map_of ?out s
        = (case passes e mp w s of Some p \<Rightarrow> Some p | None \<Rightarrow> map_of valid0 s)"
      by (simp only: v1_s)
    moreover have "w\<lparr>ticks := ticks w + 0\<rparr> = w" by simp
    ultimately show ?thesis unfolding 0 by (simp only: nth_Cons_0)
  next
    case (Suc j)
    with that have j: "j < length rest" by simp
    then have mem: "rest ! j \<in> set rest" by simp
    with ns have neq: "rest ! j \<noteq> s" by auto
    have pc: "passes e mp (?w1\<lparr>ticks := ticks ?w1 + j\<rparr>) (rest ! j)
        = passes e mp (w\<lparr>ticks := ticks w + Suc j\<rparr>) (rest ! j)"
      by (rule passes_cong) (simp_all add: gpi_ticks gpi_cache_other [OF neq])
    from IH j have "map_of (fst (filter_loop e mp ?w1 rest ?v1)) (rest ! j)
        = (case passes e mp (?w1\<lparr>ticks := ticks ?w1 + j\<rparr>) (rest ! j) of
             Some p \<Rightarrow> Some p | None \<Rightarrow> map_of ?v1 (rest ! j))"
      by blast
    then have "map_of ?out (rest ! j)
        = (case passes e mp (w\<lparr>ticks := ticks w + Suc j\<rparr>) (rest ! j) of
             Some p \<Rightarrow> Some p | None \<Rightarrow> map_of valid0 (rest ! j))"
      by (simp only: out pc v1_other [OF neq])
    then show ?thesis unfolding Suc by (simp only: nth_Cons_Suc)
  qed
  from inside outside show ?case by blast
qed


lemma gpi_with_exchange:
  "snd (get_price_info (with_exchange ex e) w s) = snd (get_price_info e w s)"
  "passes (with_exchange ex e) mp w s = passes e mp w s"
  by (auto simp: passes_def get_price_info_def read_clock_def Let_def with_exchange_def
      price_of_def split: sum.splits option.splits)

lemma filter_loop_with_exchange:
  "filter_loop (with_exchange ex e) mp w symbols valid = filter_loop e mp w symbols valid"
proof (induction symbols arbitrary: w valid)
  case Nil
  then show ?case by simp
next
  case (Cons s rest)
  show ?case by (simp only: filter_loop_Cons gpi_with_exchange Cons.IH)
qed

lemma map_fst_dict_set:
  "map fst (dict_set d k v) = (if k \<in> set (map fst d) then map fst d else map fst d @ [k])"
  by (induction d k v rule: dict_set.induct) auto

lemma distinct_dict_set:
  "distinct (map fst d) \<Longrightarrow> distinct (map fst (dict_set d k v))"
  by (simp add: map_fst_dict_set)

lemma distinct_filter_loop:
  "distinct (map fst valid) \<Longrightarrow> distinct (map fst (fst (filter_loop e mp w symbols valid)))"
proof (induction symbols arbitrary: w valid)
  case Nil
  then show ?case by simp
next
  case (Cons s rest)
  have "distinct (map fst (case passes e mp w s of Some p \<Rightarrow> dict_set valid s p | None \<Rightarrow> valid))"
    using Cons.prems by (simp add: distinct_dict_set split: option.splits)
  from Cons.IH [OF this] show ?case by (simp only: filter_loop_Cons)
qed

lemma distinct_filter_tickers:
  "distinct (map fst (fst (filter_tickers e mp w symbols)))"
  by (simp add: filter_tickers_def distinct_filter_loop)

lemma passes_eq:
  "passes e mp w s =
     (case (case price_cache w s of
              Some (p, t0) \<Rightarrow> if clock e (ticks w) - t0 < CACHE_TTL then Some p else None
            | None \<Rightarrow> None) of
        Some p \<Rightarrow> if p < mp then None else Some p
      | None \<Rightarrow>
          (case quote e (clock e (ticks w)) s of
             Inl msg \<Rightarrow> None
           | Inr info \<Rightarrow>
               (case price_of info of
                  None \<Rightarrow> None
                | Some q \<Rightarrow> if py_round q 2 < mp then None else Some (py_round q 2))))"
  by (cases "price_cache w s")
    (auto simp: passes_def get_price_info_def read_clock_def Let_def
      split: sum.splits option.splits if_splits)

lemma filter_loop_passed:
  "map_of (fst (filter_loop e mp w symbols valid0))
     = map_of valid0 ++ map_of (rev (passed e mp w symbols))"
proof (induction symbols arbitrary: w valid0)
  case Nil
  then show ?case by simp
next
  case (Cons s rest)
  let ?w1 = "snd (get_price_info e w s)"
  let ?v1 = "case passes e mp w s of Some p \<Rightarrow> dict_set valid0 s p | None \<Rightarrow> valid0"
  let ?A = "case passes e mp w s of Some p \<Rightarrow> [(s, p)] | None \<Rightarrow> []"
  have v1: "map_of ?v1 = map_of valid0 ++ map_of (rev ?A)"
    by (simp add: map_of_dict_set split: option.splits)
  have "map_of (fst (filter_loop e mp w (s # rest) valid0))
      = map_of ?v1 ++ map_of (rev (passed e mp ?w1 rest))"
    by (simp only: filter_loop_Cons Cons.IH)
  also have "\<dots> = map_of valid0 ++ (map_of (rev ?A) ++ map_of (rev (passed e mp ?w1 rest)))"
    by (simp only: v1 map_add_assoc)
  also have "map_of (rev ?A) ++ map_of (rev (passed e mp ?w1 rest))
      = map_of (rev (passed e mp w (s # rest)))"
    by (simp only: passed.simps rev_append map_of_append)
  finally show ?case .
qed

lemma filter_tickers_passed:
  "map_of (fst (filter_tickers e mp w symbols)) = map_of (rev (passed e mp w symbols))"
  by (simp add: filter_tickers_def filter_loop_passed)

lemma set_fst_map_of: "set (map fst xs) = dom (map_of xs)"
  by (simp add: dom_map_of_conv_image_fst)

lemma filter_tickers_keys:
  "set (map fst (fst (filter_tickers e mp w symbols))) = set (map fst (passed e mp w symbols))"
proof -
  have "set (map fst (fst (filter_tickers e mp w symbols)))
      = dom (map_of (rev (passed e mp w symbols)))"
    by (simp only: set_fst_map_of filter_tickers_passed)
  also have "\<dots> = set (map fst (passed e mp w symbols))"
    by (simp add: dom_map_of_conv_image_fst)
  finally show ?thesis .
qed

lemma passed_subset: "set (map fst (passed e mp w symbols)) \<subseteq> set symbols"
  by (induction symbols arbitrary: w) (auto split: option.splits)

lemma passes_failing:
  assumes "price_cache w s = None"
    and "\<forall>t. (\<exists>msg. quote e t s = Inl msg)
             \<or> (\<exists>info. quote e t s = Inr info \<and> price_of info = None)"
  shows "passes e mp w s = None"
proof -
  from assms(2) have "(\<exists>msg. quote e (clock e (ticks w)) s = Inl msg)
      \<or> (\<exists>info. quote e (clock e (ticks w)) s = Inr info \<and> price_of info = None)"
    by blast
  with assms(1) show ?thesis by (auto simp: passes_eq)
qed

lemma gpi_cache_failing:
  assumes "price_cache w s = None"
    and "\<forall>t. (\<exists>msg. quote e t s = Inl msg)
             \<or> (\<exists>info. quote e t s = Inr info \<and> price_of info = None)"
  shows "price_cache (snd (get_price_info e w s')) s = None"
proof (cases "s' = s")
  case True
  from assms(2) have "(\<exists>msg. quote e (clock e (ticks w)) s = Inl msg)
      \<or> (\<exists>info. quote e (clock e (ticks w)) s = Inr info \<and> price_of info = None)"
    by blast
  with assms(1) True show ?thesis
    by (auto simp: get_price_info_def read_clock_def Let_def)
next
  case False
  then have "s \<noteq> s'" by blast
  from gpi_cache_other [OF this] assms(1) show ?thesis by simp
qed

lemma passed_failing:
  assumes "\<forall>t. (\<exists>msg. quote e t s = Inl msg)
             \<or> (\<exists>info. quote e t s = Inr info \<and> price_of info = None)"
  shows "price_cache w s = None \<Longrightarrow> s \<notin> set (map fst (passed e mp w symbols))"
proof (induction symbols arbitrary: w)
  case Nil
  then show ?case by simp
next
  case (Cons s' rest)
  have c: "price_cache (snd (get_price_info e w s')) s = None"
    by (rule gpi_cache_failing [OF Cons.prems assms])
  have r: "s \<notin> set (map fst (passed e mp (snd (get_price_info e w s')) rest))"
    by (rule Cons.IH [OF c])
  have h: "s \<notin> set (map fst (case passes e mp w s' of Some p \<Rightarrow> [(s', p)] | None \<Rightarrow> []))"
  proof (cases "s' = s")
    case True
    with passes_failing [OF Cons.prems assms, of mp] show ?thesis by simp
  next
    case False
    then show ?thesis by (cases "passes e mp w s'") auto
  qed
  from h r show ?case by simp
qed

lemma filter_tickers_skip:
  assumes "passes e mp w s = None"
  shows "filter_tickers e mp w (s # rest) = filter_tickers e mp (snd (get_price_info e w s)) rest"
  using assms by (simp only: filter_tickers_def filter_loop_Cons option.case)

lemma filter_rounding_env:
  "fst (filter_tickers rounding_env 8 world0 [''EDGE'']) = [(''EDGE'', 8)]"
  by (simp add: filter_tickers_def get_price_info_def read_clock_def Let_def rounding_env_def
      world0_def price_of_def py_round_def round_half_even_def)

text \<open>
  C7, as stated: the filter returns exactly the tickers whose quote lookup succeeded
  with a price of at least the minimum, mapped to that price. A quote of 7.996 lies
  below the minimum of 8; the price is rounded to two decimals before it is compared,
  and the ticker is returned with the price 8.
\<close>

theorem C7_rounded_price_counterexample:
  "quote rounding_env 0 ''EDGE''
     = Inr \<lparr>currentPrice = Some (7996 / 1000), regularMarketPrice = None,
            info_exchange = ''NMS''\<rparr>
   \<and> (7996 / 1000 :: real) < 8
   \<and> fst (filter_tickers rounding_env 8 world0 [''EDGE'']) = [(''EDGE'', 8)]"
  by (simp add: filter_rounding_env) (simp add: rounding_env_def)

text \<open>
  C7, amended: the filter returns a price map with distinct keys that holds exactly the
  tickers of which a lookup of the run passes, each mapped to the price of its last
  passing lookup. A lookup passes with the price of a cache entry less than two minutes
  old, or else with the price that the collaborator reports, rounded to two decimals,
  when that price is at least the minimum; an error of the collaborator or a missing
  price makes the lookup fail. A ticker whose lookup fails is skipped and the run goes
  on with the remaining tickers; a ticker without a cache entry for which the
  collaborator never delivers a price is not in the result. In a list without
  repetitions the \<open>i\<close>-th ticker is looked up at the \<open>i\<close>-th reading of the clock against
  the cache as it was before the run. The exchanges that the quote lookup reports have
  no influence on the result.
\<close>

theorem C7_filter_result:
  "map_of (fst (filter_tickers e min_price w symbols))
     = map_of (rev (passed e min_price w symbols))
   \<and> set (map fst (fst (filter_tickers e min_price w symbols)))
       = set (map fst (passed e min_price w symbols))
   \<and> distinct (map fst (fst (filter_tickers e min_price w symbols)))
   \<and> set (map fst (passed e min_price w symbols)) \<subseteq> set symbols
   \<and> passes e min_price w2 s =
       (case (case price_cache w2 s of
                Some (p, t0) \<Rightarrow> if clock e (ticks w2) - t0 < CACHE_TTL then Some p else None
              | None \<Rightarrow> None) of
          Some p \<Rightarrow> if p < min_price then None else Some p
        | None \<Rightarrow>
            (case quote e (clock e (ticks w2)) s of
               Inl msg \<Rightarrow> None
             | Inr info \<Rightarrow>
                 (case price_of info of
                    None \<Rightarrow> None
                  | Some q \<Rightarrow> if py_round q 2 < min_price then None else Some (py_round q 2))))
   \<and> (passes e min_price w2 s = Some p \<longleftrightarrow>
         (\<exists>ex. fst (get_price_info e w2 s) = PriceOk s p ex) \<and> min_price \<le> p)
   \<and> (passes e min_price w s = None \<longrightarrow>
         filter_tickers e min_price w (s # rest)
           = filter_tickers e min_price (snd (get_price_info e w s)) rest)
   \<and> (price_cache w s = None
        \<and> (\<forall>t. (\<exists>msg. quote e t s = Inl msg)
                \<or> (\<exists>info. quote e t s = Inr info \<and> price_of info = None)) \<longrightarrow>
         s \<notin> set (map fst (fst (filter_tickers e min_price w symbols))))
   \<and> (distinct symbols \<longrightarrow>
         (\<forall>i<length symbols.
            map_of (fst (filter_tickers e min_price w symbols)) (symbols ! i)
              = passes e min_price (w\<lparr>ticks := ticks w + i\<rparr>) (symbols ! i)))
   \<and> filter_tickers (with_exchange exch e) min_price w symbols
       = filter_tickers e min_price w symbols"
proof -
  have a: "map_of (fst (filter_tickers e min_price w symbols))
     = map_of (rev (passed e min_price w symbols))"
    by (rule filter_tickers_passed)
  have b: "set (map fst (fst (filter_tickers e min_price w symbols)))
       = set (map fst (passed e min_price w symbols))"
    by (rule filter_tickers_keys)
  have b': "distinct (map fst (fst (filter_tickers e min_price w symbols)))"
    by (rule distinct_filter_tickers)
  have c: "set (map fst (passed e min_price w symbols)) \<subseteq> set symbols"
    by (rule passed_subset)
  note d = passes_eq [of e min_price w2 s]
  have f: "passes e min_price w2 s = Some p \<longleftrightarrow>
         (\<exists>ex. fst (get_price_info e w2 s) = PriceOk s p ex) \<and> min_price \<le> p"
    by (rule passes_Some)
  have sk: "filter_tickers e min_price w (s # rest)
           = filter_tickers e min_price (snd (get_price_info e w s)) rest"
    if "passes e min_price w s = None"
    by (rule filter_tickers_skip [OF that])
  have ex: "s \<notin> set (map fst (fst (filter_tickers e min_price w symbols)))"
    if "price_cache w s = None"
      and "\<forall>t. (\<exists>msg. quote e t s = Inl msg)
                \<or> (\<exists>info. quote e t s = Inr info \<and> price_of info = None)"
    unfolding b by (rule passed_failing [OF that(2) that(1)])
  have g: "\<forall>i<length symbols.
            map_of (fst (filter_tickers e min_price w symbols)) (symbols ! i)
              = passes e min_price (w\<lparr>ticks := ticks w + i\<rparr>) (symbols ! i)"
    if "distinct symbols"
    using filter_loop_spec [OF that, of e min_price w "[]"]
    by (auto simp: filter_tickers_def split: option.splits)
  have h: "filter_tickers (with_exchange exch e) min_price w symbols
             = filter_tickers e min_price w symbols"
    by (simp only: filter_tickers_def filter_loop_with_exchange)
  show ?thesis
    apply (intro conjI)
    subgoal by (rule a)
    subgoal by (rule b)
    subgoal by (rule b')
    subgoal by (rule c)
    subgoal by (rule d)
    subgoal by (rule f)
    subgoal using sk by blast
    subgoal using ex by blast
    subgoal using g by blast
    subgoal by (rule h)
    done
qed

lemma filter_quote_env:
  "fst (filter_tickers quote_env 8 world0 [''AAPL'', ''PENNY'', ''ERR'', ''NOEX''])
     = [(''AAPL'', 150), (''NOEX'', 20)]"
  by (simp add: filter_tickers_def get_price_info_def read_clock_def Let_def quote_env_def
      world0_def price_of_def py_round_def round_half_even_def CACHE_TTL_def minutes_def)

lemma filter_dup_env:
  "fst (filter_tickers dup_env 8 world0 [''X'', ''X'']) = [(''X'', 10)]"
  by (simp add: filter_tickers_def get_price_info_def read_clock_def Let_def dup_env_def
      world0_def price_of_def py_round_def round_half_even_def CACHE_TTL_def minutes_def)

lemma quote_env_err: "quote quote_env t ''ERR'' = Inl ''connection error''"
  by (simp add: quote_env_def)

theorem C7_filter_result_witness:
  "map_of (fst (filter_tickers quote_env 8 world0 [''AAPL'', ''PENNY'', ''ERR'', ''NOEX'']))
      ''NOEX'' = Some 20
   \<and> passes quote_env 8 (world0\<lparr>ticks := 2\<rparr>) ''ERR'' = None
   \<and> ''ERR'' \<notin> set (map fst (fst (filter_tickers quote_env 8 world0
                                       [''AAPL'', ''PENNY'', ''ERR'', ''NOEX''])))
   \<and> filter_tickers quote_env 8 world0 [''ERR'', ''AAPL'']
       = filter_tickers quote_env 8 (snd (get_price_info quote_env world0 ''ERR'')) [''AAPL'']
   \<and> fst (filter_tickers quote_env 8 world0 [''ERR'', ''AAPL'']) = [(''AAPL'', 150)]
   \<and> fst (filter_tickers quote_env 8 world0 [''AAPL'', ''PENNY'', ''ERR'', ''NOEX''])
      = [(''AAPL'', 150), (''NOEX'', 20)]
   \<and> fst (filter_tickers dup_env 8 world0 [''X'', ''X'']) = [(''X'', 10)]
   \<and> map_of (rev (passed dup_env 8 world0 [''X'', ''X''])) ''X'' = Some 10"
proof -
  let ?symbols = "[''AAPL'', ''PENNY'', ''ERR'', ''NOEX'']"
  note inst = C7_filter_result [where e = quote_env and min_price = 8 and w = world0
      and symbols = ?symbols and s = "''ERR''" and rest = "[''AAPL'']"]
  have d: "distinct ?symbols" by simp
  from inst d
  have spec: "\<forall>i<length ?symbols.
      map_of (fst (filter_tickers quote_env 8 world0 ?symbols)) (?symbols ! i)
        = passes quote_env 8 (world0\<lparr>ticks := ticks world0 + i\<rparr>) (?symbols ! i)"
    by blast
  from spec [rule_format, of 3]
  have "map_of (fst (filter_tickers quote_env 8 world0 ?symbols)) ''NOEX''
      = passes quote_env 8 (world0\<lparr>ticks := ticks world0 + 3\<rparr>) ''NOEX''"
    by simp
  also have "\<dots> = Some 20"
    by (simp add: passes_def get_price_info_def read_clock_def Let_def quote_env_def
        world0_def price_of_def py_round_def round_half_even_def)
  finally have a: "map_of (fst (filter_tickers quote_env 8 world0 ?symbols)) ''NOEX'' = Some 20" .
  have b: "passes quote_env 8 (world0\<lparr>ticks := 2\<rparr>) ''ERR'' = None"
    by (simp add: passes_def get_price_info_def read_clock_def Let_def quote_env_def
        world0_def)
  have none: "price_cache world0 ''ERR'' = None" by (simp add: world0_def)
  have fails: "\<forall>t. (\<exists>msg. quote quote_env t ''ERR'' = Inl msg)
      \<or> (\<exists>info. quote quote_env t ''ERR'' = Inr info \<and> price_of info = None)"
    by (simp add: quote_env_err)
  from inst none fails
  have ex: "''ERR'' \<notin> set (map fst (fst (filter_tickers quote_env 8 world0 ?symbols)))"
    by blast
  have p0: "passes quote_env 8 world0 ''ERR'' = None"
    by (simp add: passes_def get_price_info_def read_clock_def Let_def quote_env_def
        world0_def)
  from inst p0
  have sk: "filter_tickers quote_env 8 world0 [''ERR'', ''AAPL'']
       = filter_tickers quote_env 8 (snd (get_price_info quote_env world0 ''ERR'')) [''AAPL'']"
    by blast
  have sk2: "fst (filter_tickers quote_env 8 world0 [''ERR'', ''AAPL'']) = [(''AAPL'', 150)]"
    by (simp add: filter_tickers_def get_price_info_def read_clock_def Let_def quote_env_def
      world0_def price_of_def py_round_def round_half_even_def CACHE_TTL_def minutes_def)
  from C7_filter_result [of dup_env 8 world0 "[''X'', ''X'']"]
  have "map_of (rev (passed dup_env 8 world0 [''X'', ''X'']))
      = map_of (fst (filter_tickers dup_env 8 world0 [''X'', ''X'']))"
    by simp
  then have c: "map_of (rev (passed dup_env 8 world0 [''X'', ''X''])) ''X'' = Some 10"
    by (simp add: filter_dup_env)
  show ?thesis
    apply (intro conjI)
    subgoal by (rule a)
    subgoal by (rule b)
    subgoal by (rule ex)
    subgoal by (rule sk)
    subgoal by (rule sk2)
    subgoal by (rule filter_quote_env)
    subgoal by (rule filter_dup_env)
    subgoal by (rule c)
    done
qed

subsection \<open>The ticker count of the engine result\<close>

lemma summary_text_prefix:
  "\<exists>rest. summary_text n_stories n_valid n_technical recs =
     ''Analyzed '' @ show_nat n_stories @ '' stories, detected '' @ show_nat n_valid
       @ '' tradeable tickers.'' @ rest"
  unfolding summary_text_def Let_def by blast

text \<open>
  C10: when the loop over the stories leaves at least one analysis, the field
  \<open>tickers_detected\<close> of the result is the number of entries of the price map that the
  filter returns for the candidate tickers (a map with distinct keys), and the summary
  sentence reports the same number.
\<close>

theorem C10_tickers_detected:
  assumes "(case now_arg of None \<Rightarrow> read_clock e w | Some t \<Rightarrow> (t, w)) = (now, w0)"
    and "analyze_all eng e now w0 stories = (story_analyses, all_tickers, story_details, w1)"
    and "story_analyses \<noteq> []"
  shows "tickers_detected (fst (analyze_stories eng e w stories now_arg filter_hold max_recs))
           = length (fst (filter_tickers e (eng_min_price eng) w1 (map fst all_tickers)))
         \<and> distinct (map fst (fst (filter_tickers e (eng_min_price eng) w1 (map fst all_tickers))))
         \<and> (\<exists>rest. analysis_summary
                      (fst (analyze_stories eng e w stories now_arg filter_hold max_recs))
               = ''Analyzed '' @ show_nat (length stories) @ '' stories, detected ''
                 @ show_nat (tickers_detected
                      (fst (analyze_stories eng e w stories now_arg filter_hold max_recs)))
                 @ '' tradeable tickers.'' @ rest)"
proof -
  obtain valid w2 where f: "filter_tickers e (eng_min_price eng) w1 (map fst all_tickers) = (valid, w2)"
    by (cases "filter_tickers e (eng_min_price eng) w1 (map fst all_tickers)")
  obtain ts w3 where t: "technical_all e w2 (map fst valid) [] = (ts, w3)"
    by (cases "technical_all e w2 (map fst valid) []")
  let ?r = "fst (analyze_stories eng e w stories now_arg filter_hold max_recs)"
  have td: "tickers_detected ?r = length valid"
    using assms f t by (simp add: analyze_stories_def Let_def)
  have "analysis_summary ?r
      = summary_text (length stories) (length valid) (length ts) (er_recommendations ?r)"
    using assms f t by (simp add: analyze_stories_def Let_def)
  with summary_text_prefix [of "length stories" "length valid" "length ts"
      "er_recommendations ?r"]
  have sm: "\<exists>rest. analysis_summary ?r
      = ''Analyzed '' @ show_nat (length stories) @ '' stories, detected ''
        @ show_nat (length valid) @ '' tradeable tickers.'' @ rest"
    by simp
  have "distinct (map fst (fst (filter_loop e (eng_min_price eng) w1 (map fst all_tickers) [])))"
    by (rule distinct_filter_loop) simp
  then have di: "distinct (map fst valid)" using f by (simp add: filter_tickers_def)
  from td sm di show ?thesis by (simp add: f)
qed

lemma lex_aapl: "map_of FINANCIAL_LEXICON ''aapl'' = None"
  unfolding FINANCIAL_LEXICON_def by (simp only: map_of_Cons_code str_eval)

lemma lex_penny: "map_of FINANCIAL_LEXICON ''penny'' = None"
  unfolding FINANCIAL_LEXICON_def by (simp only: map_of_Cons_code str_eval)

lemma scores_sample: "all_scores FINANCIAL_LEXICON ''AAPL PENNY'' = []"
proof -
  have t: "tokenize (lower ''AAPL PENNY'') = [''aapl'', ''penny'']"
    by (simp add: lower_def lower_char_def is_lower_def)
  have p: "phrase_scores (multi_word FINANCIAL_LEXICON) (lower ''AAPL PENNY'') = []"
    by (simp add: multi_word_FINANCIAL_LEXICON phrase_scores_def count_sub_def
        lower_def lower_char_def)
  have a: "map_of (single_word FINANCIAL_LEXICON) ''aapl'' = None"
    by (simp add: map_of_single_word lex_aapl)
  have b: "map_of (single_word FINANCIAL_LEXICON) ''penny'' = None"
    by (simp add: map_of_single_word lex_penny)
  have i: "map_of INTENSIFIERS ''aapl'' = None" by (simp add: INTENSIFIERS_def)
  have "token_scores (map_of (single_word FINANCIAL_LEXICON)) [''aapl'', ''penny''] = []"
    by (simp add: a b i)
  with t p show ?thesis by (simp only: all_scores_def append_Nil)
qed

lemma sample_not_common:
  "''AAPL'' \<notin> set COMMON_UPPER_WORDS" "''PENNY'' \<notin> set COMMON_UPPER_WORDS"
  unfolding COMMON_UPPER_WORDS_def
  by (simp_all only: list.set insert_iff empty_iff str_eval)

lemma candidates_sample: "candidates ''AAPL PENNY'' = [(''AAPL'', 9 / 10), (''PENNY'', 9 / 10)]"
  by (simp add: candidates_def is_upper_def is_lower_def is_letter_def is_word_char_def
      sample_not_common)

lemma extract_sample:
  "extract_and_resolve quote_env world0 ''AAPL PENNY'' = ([], sample_world1)"
  by (simp add: extract_and_resolve_def candidates_sample resolve_def read_clock_def
      world0_def quote_env_def lookup_def strip_def lower_def lower_char_def is_space_def Let_def
      sample_world1_def)

lemma static_hits_sample:
  "symbol_hits [''AAPL'', ''PENNY''] ''AAPL PENNY''
     (alias_hits [(''apple'', ''AAPL'')] [''AAPL'', ''PENNY''] (lower ''AAPL PENNY''))
     = [(''AAPL'', 1), (''PENNY'', 1)]"
  by (simp add: symbol_hits_def alias_hits_def symbol_matches_def AMBIGUOUS_TICKERS_def
      add_hits_def count_sub_def lower_def lower_char_def is_letter_def is_lower_def
      is_upper_def Let_def)

lemma detect_sample:
  "detect [(''apple'', ''AAPL'')] [''AAPL'', ''PENNY''] quote_env world0 ''AAPL PENNY''
     = ([(''AAPL'', 1), (''PENNY'', 1)], sample_world1)"
  by (simp add: detect_def static_hits_sample extract_sample merge_dynamic_def relevances_def
      py_round_def round_half_even_def)

lemma themes_sample:
  "map_themes [(''chip'', [(''NVDA'', 9 / 10)])] [''AAPL'', ''PENNY''] ''AAPL PENNY'' = []"
  by (simp add: map_themes_def lower_def lower_char_def)

lemma analyze_sample:
  "analyze FINANCIAL_LEXICON ''AAPL PENNY''
     = \<lparr>sentiment = Neutral, score = 0, sr_confidence = 1 / 10, word_hits = 0\<rparr>"
  by (simp add: analyze_def scores_sample)

lemma analyze_all_sample:
  "analyze_all sample_engine quote_env 0 world0 [sample_story] =
     ([\<lparr>sentiment_score = 0, sentiment_confidence = 1 / 10,
        tickers = [(''AAPL'', 1), (''PENNY'', 1)], story_age_hours = 1,
        story_snippet = ''AAPL PENNY''\<rparr>],
      [(''AAPL'', 1), (''PENNY'', 1)],
      [\<lparr>sd_snippet = ''AAPL PENNY'', sd_sentiment = Neutral,
        sd_sentiment_score = 0, sd_sentiment_confidence = 1 / 10,
        sd_word_hits = 0,
        sd_companies_detected = [(''AAPL'', 1), (''PENNY'', 1)],
        sd_themes_matched = [],
        sd_combined_tickers = [(''AAPL'', 1), (''PENNY'', 1)],
        sd_age_hours = 1\<rparr>],
      sample_world1)"
  by (simp add: analyze_all_def analyze_story_def sample_engine_def sample_story_def
      story_text_def detect_sample themes_sample analyze_sample combine_tickers_def
      parse_age_hours_def py_round_def round_half_even_def Let_def)

lemma filter_sample:
  "fst (filter_tickers quote_env 8 sample_world1 [''AAPL'', ''PENNY'']) = [(''AAPL'', 150)]"
  by (simp add: filter_tickers_def get_price_info_def read_clock_def Let_def quote_env_def
      sample_world1_def price_of_def py_round_def round_half_even_def CACHE_TTL_def minutes_def)

theorem C10_tickers_detected_witness:
  "tickers_detected
     (fst (analyze_stories sample_engine quote_env world0 [sample_story] (Some 0) True 8)) = 1
   \<and> length (fst (snd (analyze_all sample_engine quote_env 0 world0 [sample_story]))) = 2"
proof -
  have n: "(case Some 0 of None \<Rightarrow> read_clock quote_env world0 | Some t \<Rightarrow> (t, world0))
      = (0, world0)"
    by simp
  have ne: "[\<lparr>sentiment_score = 0, sentiment_confidence = 1 / 10,
        tickers = [(''AAPL'', 1), (''PENNY'', 1)], story_age_hours = 1,
        story_snippet = ''AAPL PENNY''\<rparr>] \<noteq> []"
    by simp
  from C10_tickers_detected [OF n analyze_all_sample ne, of True 8]
  have "tickers_detected
     (fst (analyze_stories sample_engine quote_env world0 [sample_story] (Some 0) True 8))
     = length (fst (filter_tickers quote_env (eng_min_price sample_engine) sample_world1
         (map fst [(''AAPL'', 1 :: real), (''PENNY'', 1)])))"
    by blast
  also have "\<dots> = 1"
    by (simp add: sample_engine_def filter_sample)
  finally show ?thesis by (simp add: analyze_all_sample)
qed

end
